theory Spec2Isabelle
  imports Complex_Main
begin

section \<open>JavaScript values used by the services\<close>

text \<open>
  Strings are character lists. \<open>str_includes s t\<close> is \<open>s.includes(t)\<close>: \<open>t\<close> occurs
  in \<open>s\<close> as a contiguous substring.
\<close>

fun startsWith :: "string \<Rightarrow> string \<Rightarrow> bool" where
  "startsWith s [] = True"
| "startsWith [] (c # t) = False"
| "startsWith (d # s) (c # t) = (d = c \<and> startsWith s t)"

fun str_includes :: "string \<Rightarrow> string \<Rightarrow> bool" where
  "str_includes [] t = (t = [])"
| "str_includes (c # s) t = (startsWith (c # s) t \<or> str_includes s t)"

text \<open>
  A thrown value: an \<open>Error\<close> object with its message, or any other thrown value with
  the text \<open>String(value)\<close> gives. \<open>error_msg\<close> is \<open>error?.message || String(error)\<close>.
\<close>

datatype js_error = Error string | Thrown string

fun error_msg :: "js_error \<Rightarrow> string" where
  "error_msg (Error m) = (if m = [] then ''Error'' else m)"
| "error_msg (Thrown s) = s"

text \<open>
  A JavaScript number that may be \<open>NaN\<close> (what \<open>parseFloat\<close> returns on text that is
  not a number). Every comparison with \<open>NaN\<close> is false and arithmetic on it gives
  \<open>NaN\<close>. Finite numbers are idealised as reals.
\<close>

datatype jsnum = NaN | Num real

fun js_lt :: "jsnum \<Rightarrow> jsnum \<Rightarrow> bool" where
  "js_lt (Num a) (Num b) = (a < b)"
| "js_lt _ _ = False"

fun js_sub :: "jsnum \<Rightarrow> jsnum \<Rightarrow> jsnum" where
  "js_sub (Num a) (Num b) = Num (a - b)"
| "js_sub _ _ = NaN"

fun js_mul :: "jsnum \<Rightarrow> jsnum \<Rightarrow> jsnum" where
  "js_mul (Num a) (Num b) = Num (a * b)"
| "js_mul _ _ = NaN"

text \<open>
  \<open>Number(process.env.X) || d\<close>: the variable read as a number (\<open>None\<close> when unset or
  not a number), replaced by the default when it is missing or zero.
\<close>

fun or_default :: "real option \<Rightarrow> real \<Rightarrow> real" where
  "or_default None d = d"
| "or_default (Some x) d = (if x = 0 then d else x)"

text \<open>
  A \<open>Date\<close> object as the accessors the services read: \<open>getTime()\<close>, and the fields of
  the local calendar date. \<open>toDateString()\<close> prints the week day, the month, the day
  of the month and the year (\<open>Thu Jan 15 2026\<close>); it is kept as the four fields it
  prints, so two such values are equal exactly when the printed strings are.
  \<open>getDate()\<close> is the day of the month alone.
\<close>

record jsdate =
  millis :: int
  weekDay :: nat
  monthIdx :: nat
  dateOfMonth :: nat
  fullYear :: int
  hourOfDay :: nat

type_synonym datestring = "nat \<times> nat \<times> nat \<times> int"

definition toDateString :: "jsdate \<Rightarrow> datestring" where
  "toDateString d = (weekDay d, monthIdx d, dateOfMonth d, fullYear d)"

definition getDate :: "jsdate \<Rightarrow> nat" where
  "getDate d = dateOfMonth d"

definition getHours :: "jsdate \<Rightarrow> nat" where
  "getHours d = hourOfDay d"

text \<open>\<open>toLowerCase()\<close> on ASCII text and the white space class \<open>\s\<close> on ASCII.\<close>

definition lower_char :: "char \<Rightarrow> char" where
  "lower_char c =
     (case map_of (zip ''ABCDEFGHIJKLMNOPQRSTUVWXYZ'' ''abcdefghijklmnopqrstuvwxyz'') c of
        Some l \<Rightarrow> l
      | None \<Rightarrow> c)"

definition toLowerCase :: "string \<Rightarrow> string" where
  "toLowerCase s = map lower_char s"

definition isSpace :: "char \<Rightarrow> bool" where
  "isSpace c = (c \<in> set [CHR '' '', CHR 0x09, CHR 0x0A, CHR 0x0B, CHR 0x0C, CHR 0x0D])"

definition isDigit :: "char \<Rightarrow> bool" where
  "isDigit c = (c \<in> set ''0123456789'')"

section \<open>Data model\<close>

datatype sentiment = Positive | Negative | NeutralSentiment

record article =
  title :: string
  description :: string
  url :: string
  source :: string
  publishedAt :: int
  sentiment :: "sentiment option"
  relevanceScore :: "real option"
  categories :: "string list option"

datatype signal_kind = Bullish | Bearish | Neutral

record news_signal =
  sig_market :: string
  sig_signal :: signal_kind
  sig_confidence :: real
  sig_articles :: "article list"

text \<open>An element of \<open>response.data.articles\<close> as the news API returns it.\<close>

record raw_article =
  raw_title :: "string option"
  raw_description :: "string option"
  raw_url :: string
  raw_source_name :: "string option"
  raw_publishedAt :: int

datatype request =
    TopHeadlines string nat
  | Everything string string string nat int

datatype http_result = HttpOk "raw_article list" | HttpFails "nat option"

datatype outcome = YES | NO

record market_match =
  mm_conditionId :: string
  mm_question :: string
  mm_confirmedOutcome :: outcome
  mm_reasoning :: string
  mm_currentPrice :: jsnum

record opportunity =
  opp_marketId :: string
  opp_question :: string
  opp_outcome :: outcome
  opp_currentPrice :: jsnum
  opp_predictedProbability :: real
  opp_confidence :: real
  opp_expectedValue :: jsnum
  opp_newsSignals :: "string list"
  opp_riskScore :: real

text \<open>
  The reasoning text of a decision is kept as the values it is printed from: the
  outcome, the price and the carried signals when trading, the confidence and the
  threshold otherwise.
\<close>

datatype reasoning =
    ConfirmedEvent outcome jsnum "string list"
  | BelowThreshold real real

record decision =
  dec_shouldTrade :: bool
  dec_marketId :: string
  dec_outcome :: outcome
  dec_size :: real
  dec_price :: jsnum
  dec_confidence :: real
  dec_reasoning :: reasoning

record confirmed_event =
  ev_event :: string
  ev_detail :: string
  ev_sources :: "string list"

text \<open>A market of the Gamma API and an element of the model's matching answer.\<close>

record market =
  mk_conditionId :: string
  mk_question :: string
  mk_outcomePrices :: "string option"

record raw_match =
  rm_marketIndex :: int
  rm_confirmedOutcome :: string
  rm_reasoning :: string

record balance_check =
  hasEnoughBalance :: bool
  usdcBalance :: real

record trade_result =
  tr_success :: bool
  tr_orderId :: "string option"
  tr_error :: "string option"

type_synonym open_positions = "string \<rightharpoonup> unit"

section \<open>The outside world\<close>

text \<open>
  Every call that leaves the process is answered by an oracle of the environment. The
  world counts the oracle consultations (\<open>tick\<close>), so that two consultations may be
  answered differently, and keeps the externally visible effects in the order they
  happened (\<open>trace\<close>).
\<close>

datatype event =
    ApiGet request
  | LLMCall string
  | Sleep nat
  | FetchMarkets nat
  | CheckBalance real
  | ExecuteTrade decision
  | Deposit real
  | RefreshPositions
  | RecordScan nat "opportunity list" "decision list"

record world =
  tick :: nat
  trace :: "event list"

definition emit :: "event \<Rightarrow> world \<Rightarrow> world" where
  "emit e w = w\<lparr>trace := trace w @ [e]\<rparr>"

definition step :: "world \<Rightarrow> world" where
  "step w = w\<lparr>tick := Suc (tick w)\<rparr>"

datatype model_result = ModelThrows js_error | ModelReturns string

text \<open>
  The collaborators: the clock (\<open>new Date()\<close>, \<open>Date.now()\<close>), the news API
  (\<open>axios.get\<close>), the language model (\<open>runtime.useModel\<close>), the Gamma API, the
  text builders and decoders of the strategy (template literals, \<open>JSON.parse\<close>,
  \<open>parseFloat\<close>), the balance manager, the trade executor and the position manager.
  The balance manager, the trade executor and the position manager answer with the
  values of their interfaces; an exception thrown by one of them would end the scan in
  the \<open>catch\<close> of \<open>scanAndTrade\<close> and is not part of the model.
\<close>

record env =
  now :: "nat \<Rightarrow> jsdate"
  httpGet :: "nat \<Rightarrow> request \<Rightarrow> http_result"
  useModel :: "nat \<Rightarrow> string \<Rightarrow> model_result"
  fetchMarkets :: "nat \<Rightarrow> nat \<Rightarrow> market list option"
  eventsPrompt :: "article list \<Rightarrow> string"
  parseEvents :: "string \<Rightarrow> confirmed_event list option"
  matchPrompt :: "confirmed_event list \<Rightarrow> market list \<Rightarrow> string"
  parseMatches :: "string \<Rightarrow> raw_match list option"
  parsePrices :: "string \<Rightarrow> (jsnum \<times> jsnum) option"
  envMaxPositionSize :: "real option"
  checkBalance :: "nat \<Rightarrow> real \<Rightarrow> balance_check"
  executeTrade :: "nat \<Rightarrow> decision \<Rightarrow> trade_result"
  handleL2Deposit :: "nat \<Rightarrow> real \<Rightarrow> bool"
  getPositionCount :: "nat \<Rightarrow> nat"
  getOpenPositions :: "nat \<Rightarrow> open_positions"

definition clock :: "env \<Rightarrow> world \<Rightarrow> jsdate \<times> world" where
  "clock E w = (now E (tick w), step w)"

section \<open>NewsService\<close>

record category =
  cat_name :: string
  cat_enabled :: bool
  cat_keywords :: "string list"

text \<open>
  The fields of the service. Of the configuration only what the service reads is kept:
  the categories and the two sentiment word lists.
\<close>

record news_state =
  cfg_categories :: "category list"
  positiveWords :: "string list"
  negativeWords :: "string list"
  headlineCache :: "(article list \<times> int) option"
  searchCache :: "string \<rightharpoonup> (article list \<times> int)"
  activeApiKeys :: "string \<rightharpoonup> string"
  dailyRequestCount :: nat
  lastResetDate :: datestring
  searchesThisCycle :: nat

definition MAX_DAILY_REQUESTS :: nat where
  "MAX_DAILY_REQUESTS = 95"

definition HEADLINE_CACHE_TTL :: int where
  "HEADLINE_CACHE_TTL = 30 * 60 * 1000"

definition SEARCH_CACHE_TTL :: int where
  "SEARCH_CACHE_TTL = 2 * 60 * 60 * 1000"

definition MAX_SEARCHES_PER_CYCLE :: nat where
  "MAX_SEARCHES_PER_CYCLE = 8"

definition resetCycleCounter :: "news_state \<Rightarrow> news_state" where
  "resetCycleCounter ns = ns\<lparr>searchesThisCycle := 0\<rparr>"

definition checkDailyReset :: "env \<Rightarrow> news_state \<Rightarrow> world \<Rightarrow> news_state \<times> world" where
  "checkDailyReset E ns w =
     (let today = toDateString (now E (tick w))
      in if today \<noteq> lastResetDate ns
         then (ns\<lparr>dailyRequestCount := 0, lastResetDate := today\<rparr>, step w)
         else (ns, step w))"

definition canMakeRequest :: "env \<Rightarrow> news_state \<Rightarrow> world \<Rightarrow> bool \<times> news_state \<times> world" where
  "canMakeRequest E ns w =
     (let (ns1, w1) = checkDailyReset E ns w
      in if dailyRequestCount ns1 \<ge> MAX_DAILY_REQUESTS then (False, ns1, w1) else (True, ns1, w1))"

definition trackRequest :: "news_state \<Rightarrow> news_state" where
  "trackRequest ns = ns\<lparr>dailyRequestCount := dailyRequestCount ns + 1\<rparr>"

definition analyzeSentiment :: "news_state \<Rightarrow> string \<Rightarrow> sentiment" where
  "analyzeSentiment ns text =
     (let lowerText = toLowerCase text;
          positiveScore = length (filter (\<lambda>word. str_includes lowerText word) (positiveWords ns));
          negativeScore = length (filter (\<lambda>word. str_includes lowerText word) (negativeWords ns))
      in if positiveScore > negativeScore + 1 then Positive
         else if negativeScore > positiveScore + 1 then Negative
         else NeutralSentiment)"

definition categorizeArticle :: "news_state \<Rightarrow> string \<Rightarrow> category list" where
  "categorizeArticle ns text =
     (let lowerText = toLowerCase text
      in filter (\<lambda>c. cat_enabled c \<and>
           length (filter (\<lambda>keyword. str_includes lowerText (toLowerCase keyword)) (cat_keywords c)) > 0)
           (cfg_categories ns))"

text \<open>
  \<open>article.title && article.description\<close>: both present and not empty. \<open>str_of\<close> reads
  a field that the filter has found present.
\<close>

fun truthy :: "string option \<Rightarrow> bool" where
  "truthy None = False"
| "truthy (Some s) = (s \<noteq> [])"

fun str_of :: "string option \<Rightarrow> string" where
  "str_of None = []"
| "str_of (Some s) = s"

definition rawValid :: "raw_article \<Rightarrow> bool" where
  "rawValid a = (truthy (raw_title a) \<and> truthy (raw_description a))"

text \<open>
  The object built from a raw article; the headline fetch and the targeted search add
  the categories, the breaking search of \<open>fetchForArbitrage\<close> does not.
\<close>

definition toArticle :: "news_state \<Rightarrow> bool \<Rightarrow> raw_article \<Rightarrow> article" where
  "toArticle ns withCategories a =
     (let text = str_of (raw_title a) @ '' '' @ str_of (raw_description a)
      in \<lparr> title = str_of (raw_title a),
           description = str_of (raw_description a),
           url = raw_url a,
           source = (if truthy (raw_source_name a) then str_of (raw_source_name a) else ''Unknown''),
           publishedAt = raw_publishedAt a,
           sentiment = Some (analyzeSentiment ns text),
           relevanceScore = Some 1.0,
           categories = (if withCategories then Some (map cat_name (categorizeArticle ns text)) else None) \<rparr>)"

definition cachedHeadlines :: "news_state \<Rightarrow> article list" where
  "cachedHeadlines ns = (case headlineCache ns of None \<Rightarrow> [] | Some (data, ts) \<Rightarrow> data)"

text \<open>
  \<open>this.headlineCache && Date.now() - this.headlineCache.timestamp < TTL\<close>: the clock
  is read only when there is a cache.
\<close>

definition headlinesFresh :: "env \<Rightarrow> news_state \<Rightarrow> world \<Rightarrow> bool \<times> world" where
  "headlinesFresh E ns w =
     (case headlineCache ns of
        None \<Rightarrow> (False, w)
      | Some (data, ts) \<Rightarrow> (millis (now E (tick w)) - ts < HEADLINE_CACHE_TTL, step w))"

definition fetchHeadlines :: "env \<Rightarrow> news_state \<Rightarrow> world \<Rightarrow> article list \<times> news_state \<times> world" where
  "fetchHeadlines E ns w =
     (if activeApiKeys ns ''NewsAPI'' = None then ([], ns, w)
      else
        let (fresh, w1) = headlinesFresh E ns w
        in if fresh then (cachedHeadlines ns, ns, w1)
           else
             let (ok, ns2, w2) = canMakeRequest E ns w1
             in if \<not> ok then (cachedHeadlines ns2, ns2, w2)
                else
                  let ns3 = trackRequest ns2;
                      req = TopHeadlines ''us'' 100;
                      w3 = emit (ApiGet req) (step w2)
                  in case httpGet E (tick w2) req of
                       HttpOk raw \<Rightarrow>
                         let articles = map (toArticle ns3 True) (filter rawValid raw)
                         in (articles,
                             ns3\<lparr>headlineCache := Some (articles, millis (now E (tick w3)))\<rparr>,
                             step w3)
                     | HttpFails status \<Rightarrow> (cachedHeadlines ns3, ns3, w3))"

subsection \<open>matchArticlesLocally\<close>

text \<open>
  \<open>MarketKeywordExtractor\<close> is not part of the sources at hand; its three static
  methods are parameters, with any type \<open>'kw\<close> for \<open>ExtractedKeywords\<close>.
\<close>

record 'kw keyword_extractor =
  extractKeywords :: "string \<Rightarrow> string option \<Rightarrow> 'kw"
  createSearchQuery :: "'kw \<Rightarrow> string"
  calculateRelevanceScore :: "string \<Rightarrow> 'kw \<Rightarrow> real"

text \<open>
  The key terms of a market title:
  \<open>replace(/will|before|after|by|in \d{4}|yes|no|\?|the|a|an/gi, "")\<close>, then
  \<open>split(/\s+/)\<close>, then the tokens longer than three characters. \<open>stopMatch\<close> gives the
  length of the match of the alternation at the head of the text, trying the
  alternatives from the left as the regular expression does. The expression has no
  word boundaries: a match is deleted wherever it starts, also inside a word.
\<close>

definition inYear :: "string \<Rightarrow> bool" where
  "inYear s = (startsWith s ''in '' \<and> 7 \<le> length s \<and> list_all isDigit (take 4 (drop 3 s)))"

definition stopMatch :: "string \<Rightarrow> nat option" where
  "stopMatch s =
     (if startsWith s ''will'' then Some 4
      else if startsWith s ''before'' then Some 6
      else if startsWith s ''after'' then Some 5
      else if startsWith s ''by'' then Some 2
      else if inYear s then Some 7
      else if startsWith s ''yes'' then Some 3
      else if startsWith s ''no'' then Some 2
      else if startsWith s ''?'' then Some 1
      else if startsWith s ''the'' then Some 3
      else if startsWith s ''a'' then Some 1
      else if startsWith s ''an'' then Some 2
      else None)"

text \<open>\<open>replaceStop k s\<close>: the replacement on \<open>s\<close>, whose first \<open>k\<close> characters belong to a match already found.\<close>

fun replaceStop :: "nat \<Rightarrow> string \<Rightarrow> string" where
  "replaceStop k [] = []"
| "replaceStop k (c # s) =
     (if 0 < k then replaceStop (k - 1) s
      else case stopMatch (c # s) of
             Some n \<Rightarrow> replaceStop (n - 1) s
           | None \<Rightarrow> c # replaceStop 0 s)"

text \<open>\<open>splitWs cur gap s\<close>: the tokens of \<open>s\<close>, with \<open>cur\<close> the token being read and \<open>gap\<close> set inside a run of white space.\<close>

fun splitWs :: "string \<Rightarrow> bool \<Rightarrow> string \<Rightarrow> string list" where
  "splitWs cur gap [] = [cur]"
| "splitWs cur gap (c # s) =
     (if isSpace c then (if gap then splitWs cur True s else cur # splitWs [] True s)
      else splitWs (cur @ [c]) False s)"

definition keyTerms :: "string \<Rightarrow> string list" where
  "keyTerms marketTitle =
     filter (\<lambda>w. length w > 3) (splitWs [] False (replaceStop 0 (toLowerCase marketTitle)))"

definition articleScore :: "'kw keyword_extractor \<Rightarrow> 'kw \<Rightarrow> string list \<Rightarrow> article \<Rightarrow> real" where
  "articleScore X keywords terms a =
     (let articleText = toLowerCase (title a @ '' '' @ description a);
          keywordScore = calculateRelevanceScore X (title a @ '' '' @ description a) keywords
      in foldl (\<lambda>score term. if str_includes articleText term then score + 0.3 else score)
           (0 + keywordScore * 2) terms)"

definition scoreArticle :: "'kw keyword_extractor \<Rightarrow> 'kw \<Rightarrow> string list \<Rightarrow> article \<Rightarrow> article" where
  "scoreArticle X keywords terms a = a\<lparr>relevanceScore := Some (min (articleScore X keywords terms a) 1.0)\<rparr>"

text \<open>
  \<open>a.relevanceScore || 0\<close> and \<open>a.relevanceScore >= 0.3\<close> on the optional field.
  Scores are reals: two sums that are equal here may differ in the last bit as doubles,
  and then the code orders the two articles by that difference.
\<close>

definition scoreOr0 :: "article \<Rightarrow> real" where
  "scoreOr0 a = (case relevanceScore a of None \<Rightarrow> 0 | Some r \<Rightarrow> r)"

definition relevant :: "article \<Rightarrow> bool" where
  "relevant a = (case relevanceScore a of None \<Rightarrow> False | Some r \<Rightarrow> r \<ge> 0.3)"

text \<open>
  \<open>Array.prototype.sort\<close> with a comparator is a stable sort: an element stays before
  the later elements that the comparator does not put before it. Insertion from the
  right computes that order.
\<close>

fun insertBy :: "('a \<Rightarrow> 'a \<Rightarrow> real) \<Rightarrow> 'a \<Rightarrow> 'a list \<Rightarrow> 'a list" where
  "insertBy cmp x [] = [x]"
| "insertBy cmp x (y # ys) = (if cmp x y \<le> 0 then x # y # ys else y # insertBy cmp x ys)"

definition sortBy :: "('a \<Rightarrow> 'a \<Rightarrow> real) \<Rightarrow> 'a list \<Rightarrow> 'a list" where
  "sortBy cmp xs = foldr (insertBy cmp) xs []"

definition matchArticlesLocally ::
  "'kw keyword_extractor \<Rightarrow> article list \<Rightarrow> 'kw \<Rightarrow> string \<Rightarrow> article list" where
  "matchArticlesLocally X articles keywords marketTitle =
     take 10
       (sortBy (\<lambda>a b. scoreOr0 b - scoreOr0 a)
          (filter relevant
             (map (scoreArticle X keywords (keyTerms marketTitle)) articles)))"

subsection \<open>targetedSearch, buildSignal, getMarketSignals\<close>

definition targetedSearch ::
  "env \<Rightarrow> news_state \<Rightarrow> world \<Rightarrow> string \<Rightarrow> article list \<times> news_state \<times> world" where
  "targetedSearch E ns w query =
     (if activeApiKeys ns ''NewsAPI'' = None then ([], ns, w)
      else
        let (ok, ns1, w1) = canMakeRequest E ns w
        in if \<not> ok then ([], ns1, w1)
           else
             let ns2 = trackRequest ns1;
                 (d, w2) = clock E w1;
                 req = Everything query ''en'' ''relevancy'' 20 (millis d - 7 * 24 * 60 * 60 * 1000);
                 w3 = emit (ApiGet req) (step w2)
             in case httpGet E (tick w2) req of
                  HttpOk raw \<Rightarrow> (map (toArticle ns2 True) (filter rawValid raw), ns2, w3)
                | HttpFails status \<Rightarrow> ([], ns2, w3))"

definition weightOf :: "article \<Rightarrow> real" where
  "weightOf a = (case relevanceScore a of None \<Rightarrow> 0.5 | Some r \<Rightarrow> if r = 0 then 0.5 else r)"

definition tally :: "real \<times> real \<times> real \<Rightarrow> article \<Rightarrow> real \<times> real \<times> real" where
  "tally acc a =
     (case acc of (positiveCount, negativeCount, totalWeight) \<Rightarrow>
        let weight = weightOf a
        in if sentiment a = Some Positive then (positiveCount + weight, negativeCount, totalWeight + weight)
           else if sentiment a = Some Negative then (positiveCount, negativeCount + weight, totalWeight + weight)
           else (positiveCount, negativeCount, totalWeight + weight))"

definition neutralSignal :: "string \<Rightarrow> news_signal" where
  "neutralSignal marketTitle =
     \<lparr> sig_market = marketTitle, sig_signal = Neutral, sig_confidence = 0, sig_articles = [] \<rparr>"

definition buildSignal :: "string \<Rightarrow> article list \<Rightarrow> news_signal" where
  "buildSignal marketTitle articles =
     (if length articles = 0 then neutralSignal marketTitle
      else
        case foldl tally (0, 0, 0) articles of (positiveCount, negativeCount, totalWeight) \<Rightarrow>
          let positiveRatio = positiveCount / totalWeight;
              negativeRatio = negativeCount / totalWeight;
              (signal, confidence) =
                 (if positiveRatio > 0.6 then (Bullish, positiveRatio)
                  else if negativeRatio > 0.6 then (Bearish, negativeRatio)
                  else (Neutral, 0.5));
              avgRelevance = foldl (\<lambda>sum a. sum + scoreOr0 a) 0 articles / real (length articles);
              articleCountBonus = min 0.2 (real (length articles) * 0.02)
          in \<lparr> sig_market = marketTitle,
               sig_signal = signal,
               sig_confidence = min 0.95 (confidence * avgRelevance + articleCountBonus),
               sig_articles = take 5 articles \<rparr>)"

definition confidenceInRange :: "news_signal \<Rightarrow> bool" where
  "confidenceInRange s = (0 \<le> sig_confidence s \<and> sig_confidence s \<le> 0.95)"

text \<open>
  Step 3 of \<open>getMarketSignals\<close>: the cached search under the key, when it is younger
  than two hours; the clock is read only when the key is cached.
\<close>

definition freshSearch :: "env \<Rightarrow> news_state \<Rightarrow> world \<Rightarrow> string \<Rightarrow> article list option \<times> world" where
  "freshSearch E ns w cacheKey =
     (case searchCache ns cacheKey of
        None \<Rightarrow> (None, w)
      | Some (data, ts) \<Rightarrow>
          (if millis (now E (tick w)) - ts < SEARCH_CACHE_TTL then Some data else None, step w))"

text \<open>Step 4: the targeted search, when the cycle and the day still allow one.\<close>

definition searchStep ::
  "'kw keyword_extractor \<Rightarrow> env \<Rightarrow> news_state \<Rightarrow> world \<Rightarrow> string \<Rightarrow> 'kw \<Rightarrow> string \<Rightarrow> string
     \<Rightarrow> news_signal \<times> news_state \<times> world" where
  "searchStep X E ns w marketTitle keywords searchQuery cacheKey =
     (if \<not> searchesThisCycle ns < MAX_SEARCHES_PER_CYCLE then (neutralSignal marketTitle, ns, w)
      else
        let (ok, ns1, w1) = canMakeRequest E ns w
        in if \<not> ok then (neutralSignal marketTitle, ns1, w1)
           else
             let (searchResults, ns2, w2) = targetedSearch E ns1 w1 searchQuery;
                 ns3 = ns2\<lparr>searchesThisCycle := searchesThisCycle ns2 + 1\<rparr>
             in if length searchResults > 0 then
                  let (d, w3) = clock E w2;
                      ns4 = ns3\<lparr>searchCache := (searchCache ns3)(cacheKey \<mapsto> (searchResults, millis d))\<rparr>;
                      searchMatches = matchArticlesLocally X searchResults keywords marketTitle
                  in if length searchMatches > 0 then (buildSignal marketTitle searchMatches, ns4, w3)
                     else (neutralSignal marketTitle, ns4, w3)
                else (neutralSignal marketTitle, ns3, w2))"

definition getMarketSignals ::
  "'kw keyword_extractor \<Rightarrow> env \<Rightarrow> news_state \<Rightarrow> world \<Rightarrow> string \<Rightarrow> string option
     \<Rightarrow> news_signal \<times> news_state \<times> world" where
  "getMarketSignals X E ns w marketTitle marketRules =
     (let keywords = extractKeywords X marketTitle marketRules;
          headlines = cachedHeadlines ns;
          matchedArticles = matchArticlesLocally X headlines keywords marketTitle
      in if length matchedArticles \<ge> 2 then (buildSignal marketTitle matchedArticles, ns, w)
         else
           let searchQuery = createSearchQuery X keywords;
               cacheKey = ''search_'' @ searchQuery;
               (cached, w1) = freshSearch E ns w cacheKey
           in case cached of
                Some data \<Rightarrow>
                  let cachedMatches = matchArticlesLocally X data keywords marketTitle
                  in if length cachedMatches > 0 then (buildSignal marketTitle cachedMatches, ns, w1)
                     else searchStep X E ns w1 marketTitle keywords searchQuery cacheKey
              | None \<Rightarrow> searchStep X E ns w1 marketTitle keywords searchQuery cacheKey)"

subsection \<open>fetchForArbitrage\<close>

text \<open>
  The deduplication loop: \<open>seen\<close> is the set of titles, \<open>combined\<close> the list being
  extended by the articles whose title has not been seen.
\<close>

fun dedupByTitle :: "string set \<Rightarrow> article list \<Rightarrow> article list \<Rightarrow> article list" where
  "dedupByTitle seen combined [] = combined"
| "dedupByTitle seen combined (a # articles) =
     (if title a \<notin> seen then dedupByTitle (insert (title a) seen) (combined @ [a]) articles
      else dedupByTitle seen combined articles)"

definition breakingQuery :: string where
  "breakingQuery = ''breaking OR confirmed OR officially OR announced OR signed''"

definition breakingRequest :: "int \<Rightarrow> request" where
  "breakingRequest nowMs =
     Everything breakingQuery ''en'' ''publishedAt'' 50 (nowMs - 3 * 24 * 60 * 60 * 1000)"

definition breakingArticles :: "news_state \<Rightarrow> raw_article list \<Rightarrow> article list" where
  "breakingArticles ns raw = map (toArticle ns False) (filter rawValid raw)"

definition fetchForArbitrage :: "env \<Rightarrow> news_state \<Rightarrow> world \<Rightarrow> article list \<times> news_state \<times> world" where
  "fetchForArbitrage E ns w =
     (let (headlines, ns1, w1) = fetchHeadlines E ns w;
          combined = [] @ headlines;
          (ok, ns2, w2) = canMakeRequest E ns1 w1
      in if \<not> ok then (combined, ns2, w2)
         else
           let ns3 = trackRequest ns2
           in if \<not> truthy (activeApiKeys ns3 ''NewsAPI'') then (combined, ns3, w2)
              else
                let (d, w3) = clock E w2;
                    req = breakingRequest (millis d);
                    w4 = emit (ApiGet req) (step w3)
                in case httpGet E (tick w3) req of
                     HttpOk raw \<Rightarrow>
                       let articles = breakingArticles ns3 raw
                       in (dedupByTitle (set (map title combined)) combined articles, ns3, w4)
                   | HttpFails status \<Rightarrow> (combined, ns3, w4))"

text \<open>
  The deduplication in the words of the specification: the headlines in their order,
  followed by the breaking-search articles whose title does not occur earlier in the
  headlines followed by the breaking-search list.
\<close>

definition specDedup :: "article list \<Rightarrow> article list \<Rightarrow> article list" where
  "specDedup hs bs =
     hs @ map (\<lambda>i. bs ! i)
            (filter (\<lambda>i. title (bs ! i) \<notin> set (map title (hs @ take i bs))) [0..<length bs])"

section \<open>NewsArbStrategy.callLLM\<close>

text \<open>
  The body of the \<open>try\<close> block of one attempt, answered at tick \<open>t\<close>: the model call
  throws, or returns a text;
  an empty text is turned into the error \<open>Empty response from model\<close>, thrown inside
  the same \<open>try\<close>.
\<close>

definition attempt_outcome :: "env \<Rightarrow> string \<Rightarrow> nat \<Rightarrow> js_error + string" where
  "attempt_outcome E prompt t =
     (case useModel E t prompt of
        ModelThrows e \<Rightarrow> Inl e
      | ModelReturns text \<Rightarrow>
          if text = [] then Inl (Error ''Empty response from model'') else Inr text)"

definition isRetryable :: "js_error \<Rightarrow> bool" where
  "isRetryable error =
     (let msg = error_msg error
      in str_includes msg ''503'' \<or> str_includes msg ''overloaded'' \<or> str_includes msg ''UNAVAILABLE'')"

text \<open>
  The \<open>for (attempt = 1; attempt <= maxRetries; attempt++)\<close> loop, entered at
  \<open>attempt\<close>. The result is \<open>Inl\<close> the thrown error or \<open>Inr\<close> the text.
\<close>

function callLLM_loop ::
  "env \<Rightarrow> string \<Rightarrow> nat \<Rightarrow> nat \<Rightarrow> world \<Rightarrow> (js_error + string) \<times> world" where
  "callLLM_loop E prompt maxRetries attempt w =
     (if attempt \<le> maxRetries then
        (case attempt_outcome E prompt (tick w) of
           Inr text \<Rightarrow> (Inr text, emit (LLMCall prompt) (step w))
         | Inl error \<Rightarrow>
             if isRetryable error \<and> attempt < maxRetries then
               callLLM_loop E prompt maxRetries (Suc attempt)
                 (emit (Sleep (attempt * 10000)) (emit (LLMCall prompt) (step w)))
             else (Inl error, emit (LLMCall prompt) (step w)))
      else (Inl (Error ''LLM call failed after all retries''), w))"
  by pat_completeness auto
termination
  by (relation "measure (\<lambda>(E, prompt, maxRetries, attempt, w). Suc maxRetries - attempt)") auto

declare callLLM_loop.simps [simp del]

definition callLLM :: "env \<Rightarrow> string \<Rightarrow> world \<Rightarrow> (js_error + string) \<times> world" where
  "callLLM E prompt w = callLLM_loop E prompt 3 1 w"

section \<open>NewsArbStrategy.findOpportunities\<close>

record strategy =
  runtimeSet :: bool
  enabled :: bool
  maxPrice :: real
  marketFetchLimit :: nat

definition isActive :: "strategy \<Rightarrow> bool" where
  "isActive S = enabled S"

text \<open>
  \<open>extractConfirmedEvents\<close>: the prompt over the first 40 articles, the model call, and
  the decoding of its answer. \<open>parseEvents\<close> stands for the search of the bracketed
  text, \<open>JSON.parse\<close>, \<open>Array.isArray\<close> and the filter on the shape of the elements; it
  is \<open>None\<close> where the source returns the empty list or \<open>JSON.parse\<close> throws.
\<close>

definition extractConfirmedEvents :: "env \<Rightarrow> article list \<Rightarrow> world \<Rightarrow> confirmed_event list \<times> world" where
  "extractConfirmedEvents E articles w =
     (case callLLM E (eventsPrompt E (take 40 articles)) w of
        (Inl error, w1) \<Rightarrow> ([], w1)
      | (Inr text, w1) \<Rightarrow>
          (case parseEvents E text of None \<Rightarrow> ([], w1) | Some parsed \<Rightarrow> (take 10 parsed, w1)))"

fun parseOutcome :: "string \<Rightarrow> outcome option" where
  "parseOutcome s = (if s = ''YES'' then Some YES else if s = ''NO'' then Some NO else None)"

text \<open>
  The price of the confirmed outcome: 0.5 unless the market carries prices that
  \<open>JSON.parse\<close> decodes (\<open>parsePrices\<close> is \<open>None\<close> where it throws), then
  \<open>parseFloat\<close> of the first or the second price.
\<close>

definition outcomePrice :: "env \<Rightarrow> market \<Rightarrow> outcome \<Rightarrow> jsnum" where
  "outcomePrice E mkt oc =
     (if truthy (mk_outcomePrices mkt) then
        (case parsePrices E (str_of (mk_outcomePrices mkt)) of
           None \<Rightarrow> Num 0.5
         | Some (yes, no) \<Rightarrow> if oc = YES then yes else no)
      else Num 0.5)"

fun buildMatches :: "env \<Rightarrow> market list \<Rightarrow> raw_match list \<Rightarrow> market_match list" where
  "buildMatches E markets [] = []"
| "buildMatches E markets (m # parsed) =
     (let idx = rm_marketIndex m - 1
      in if idx < 0 \<or> idx \<ge> int (length markets) then buildMatches E markets parsed
         else
           let mkt = markets ! nat idx
           in case parseOutcome (rm_confirmedOutcome m) of
                None \<Rightarrow> buildMatches E markets parsed
              | Some oc \<Rightarrow>
                  \<lparr> mm_conditionId = mk_conditionId mkt,
                    mm_question = mk_question mkt,
                    mm_confirmedOutcome = oc,
                    mm_reasoning = rm_reasoning m,
                    mm_currentPrice = outcomePrice E mkt oc \<rparr> # buildMatches E markets parsed)"

definition searchMatchingMarkets ::
  "env \<Rightarrow> confirmed_event list \<Rightarrow> nat \<Rightarrow> world \<Rightarrow> market_match list \<times> world" where
  "searchMatchingMarkets E events limit w =
     (let fetched = fetchMarkets E (tick w) limit;
          w1 = emit (FetchMarkets limit) (step w)
      in case fetched of
           None \<Rightarrow> ([], w1)
         | Some markets \<Rightarrow>
             if length markets = 0 then ([], w1)
             else
               (case callLLM E (matchPrompt E events markets) w1 of
                  (Inl error, w2) \<Rightarrow> ([], w2)
                | (Inr text, w2) \<Rightarrow>
                    (case parseMatches E text of
                       None \<Rightarrow> ([], w2)
                     | Some parsed \<Rightarrow> (buildMatches E markets parsed, w2))))"

definition toOpportunity :: "env \<Rightarrow> market_match \<Rightarrow> opportunity" where
  "toOpportunity E m =
     \<lparr> opp_marketId = mm_conditionId m,
       opp_question = mm_question m,
       opp_outcome = mm_confirmedOutcome m,
       opp_currentPrice = mm_currentPrice m,
       opp_predictedProbability = 0.95,
       opp_confidence = 0.95,
       opp_expectedValue =
         js_mul (js_sub (Num 0.95) (mm_currentPrice m)) (Num (or_default (envMaxPositionSize E) 20)),
       opp_newsSignals = [''Confirmed event matched to market'', ''LLM reasoning: '' @ mm_reasoning m],
       opp_riskScore = 0.1 \<rparr>"

text \<open>Step 4 of \<open>findOpportunities\<close>: the loop over the matches.\<close>

fun evaluateMatches :: "env \<Rightarrow> strategy \<Rightarrow> open_positions \<Rightarrow> market_match list \<Rightarrow> opportunity list" where
  "evaluateMatches E cfg openPositions [] = []"
| "evaluateMatches E cfg openPositions (m # matches) =
     (if openPositions (mm_conditionId m) \<noteq> None then evaluateMatches E cfg openPositions matches
      else if js_lt (mm_currentPrice m) (Num (maxPrice cfg))
           then toOpportunity E m # evaluateMatches E cfg openPositions matches
           else evaluateMatches E cfg openPositions matches)"

definition findOpportunities ::
  "env \<Rightarrow> strategy \<Rightarrow> open_positions \<Rightarrow> news_state \<Rightarrow> world \<Rightarrow> opportunity list \<times> news_state \<times> world" where
  "findOpportunities E cfg openPositions ns w =
     (if \<not> runtimeSet cfg then ([], ns, w)
      else
        (case fetchForArbitrage E ns w of (articles, ns1, w1) \<Rightarrow>
           if length articles = 0 then ([], ns1, w1)
           else
             (case extractConfirmedEvents E articles w1 of (events, w2) \<Rightarrow>
                if length events = 0 then ([], ns1, w2)
                else
                  (case searchMatchingMarkets E events (marketFetchLimit cfg) w2 of (matches, w3) \<Rightarrow>
                     if length matches = 0 then ([], ns1, w3)
                     else (evaluateMatches E cfg openPositions matches, ns1, w3)))))"

section \<open>OpportunityEvaluator.evaluate\<close>

record trading_config =
  unsupervisedMode :: bool
  maxPositionSize :: real
  minConfidenceThreshold :: real
  maxDailyTrades :: real
  maxOpenPositions :: real
  riskLimitPerTrade :: real
  tradingHoursRestriction :: "(real \<times> real) option"

definition evaluate :: "trading_config \<Rightarrow> opportunity \<Rightarrow> decision" where
  "evaluate cfg opp =
     (let positionSize = min (maxPositionSize cfg) (riskLimitPerTrade cfg);
          shouldTrade = (opp_confidence opp \<ge> minConfidenceThreshold cfg \<and> positionSize > 0)
      in \<lparr> dec_shouldTrade = shouldTrade,
           dec_marketId = opp_marketId opp,
           dec_outcome = opp_outcome opp,
           dec_size = positionSize,
           dec_price = opp_currentPrice opp,
           dec_confidence = opp_confidence opp,
           dec_reasoning =
             (if shouldTrade
              then ConfirmedEvent (opp_outcome opp) (opp_currentPrice opp) (opp_newsSignals opp)
              else BelowThreshold (opp_confidence opp) (minConfidenceThreshold cfg)) \<rparr>)"

section \<open>AutonomousTradingService\<close>

record trading_state =
  tradingConfig :: trading_config
  dailyTradeCount :: nat
  tradingLastResetDate :: jsdate
  newsArbStrategy :: "strategy option"

text \<open>\<open>AutonomousTradingService.checkDailyReset\<close>: the days of the month are compared.\<close>

definition ats_checkDailyReset :: "env \<Rightarrow> trading_state \<Rightarrow> world \<Rightarrow> trading_state \<times> world" where
  "ats_checkDailyReset E ts w =
     (case clock E w of (today, w1) \<Rightarrow>
        if getDate today \<noteq> getDate (tradingLastResetDate ts)
        then (ts\<lparr>dailyTradeCount := 0, tradingLastResetDate := today\<rparr>, w1)
        else (ts, w1))"

definition canTrade :: "env \<Rightarrow> trading_state \<Rightarrow> world \<Rightarrow> bool \<times> world" where
  "canTrade E ts w =
     (if real (dailyTradeCount ts) \<ge> maxDailyTrades (tradingConfig ts) then (False, w)
      else
        let positionCount = getPositionCount E (tick w);
            w1 = step w
        in if real positionCount \<ge> maxOpenPositions (tradingConfig ts) then (False, w1)
           else
             case tradingHoursRestriction (tradingConfig ts) of
               None \<Rightarrow> (True, w1)
             | Some (startHour, endHour) \<Rightarrow>
                 (case clock E w1 of (d, w2) \<Rightarrow>
                    if real (getHours d) < startHour \<or> real (getHours d) \<ge> endHour
                    then (False, w2) else (True, w2)))"

text \<open>
  \<open>tradeResult.error && tradeResult.error.includes("not enough balance / allowance")\<close>
\<close>

definition balanceIssue :: "string option \<Rightarrow> bool" where
  "balanceIssue err = (truthy err \<and> str_includes (str_of err) ''not enough balance / allowance'')"

definition handleTrade :: "env \<Rightarrow> trading_state \<Rightarrow> world \<Rightarrow> decision \<Rightarrow> trading_state \<times> world" where
  "handleTrade E ts w d =
     (let balanceCheck = checkBalance E (tick w) (dec_size d);
          w1 = emit (CheckBalance (dec_size d)) (step w)
      in if \<not> hasEnoughBalance balanceCheck then (ts, w1)
         else
           let tradeResult = executeTrade E (tick w1) d;
               w2 = emit (ExecuteTrade d) (step w1)
           in if tr_success tradeResult
              then (ts\<lparr>dailyTradeCount := dailyTradeCount ts + 1\<rparr>, emit RefreshPositions w2)
              else if balanceIssue (tr_error tradeResult) then
                let depositSuccess = handleL2Deposit E (tick w2) (dec_size d);
                    w3 = emit (Deposit (dec_size d)) (step w2)
                in if depositSuccess then
                     let w4 = emit (Sleep 5000) w3;
                         retryResult = executeTrade E (tick w4) d;
                         w5 = emit (ExecuteTrade d) (step w4)
                     in if tr_success retryResult
                        then (ts\<lparr>dailyTradeCount := dailyTradeCount ts + 1\<rparr>, emit RefreshPositions w5)
                        else (ts, w5)
                   else (ts, w3)
              else (ts, w2))"

text \<open>
  The \<open>for (const opportunity of opportunities)\<close> loop of \<open>scanAndTrade\<close>, with the
  decisions pushed so far.
\<close>

fun tradeLoop ::
  "env \<Rightarrow> trading_state \<Rightarrow> world \<Rightarrow> decision list \<Rightarrow> opportunity list
     \<Rightarrow> trading_state \<times> world \<times> decision list" where
  "tradeLoop E ts w decisions [] = (ts, w, decisions)"
| "tradeLoop E ts w decisions (opp # rest) =
     (case canTrade E ts w of (ok, w1) \<Rightarrow>
        if \<not> ok then (ts, w1, decisions)
        else
          let d = evaluate (tradingConfig ts) opp
          in if dec_shouldTrade d \<and> unsupervisedMode (tradingConfig ts)
             then (case handleTrade E ts w1 d of (ts2, w2) \<Rightarrow> tradeLoop E ts2 w2 (decisions @ [d]) rest)
             else tradeLoop E ts w1 (decisions @ [d]) rest)"

definition scanAndTrade ::
  "env \<Rightarrow> trading_state \<Rightarrow> news_state \<Rightarrow> world \<Rightarrow> trading_state \<times> news_state \<times> world" where
  "scanAndTrade E ts ns w =
     (case ats_checkDailyReset E ts w of (ts1, w1) \<Rightarrow>
        (case canTrade E ts1 w1 of (ok, w2) \<Rightarrow>
           if \<not> ok then (ts1, ns, w2)
           else
             (case newsArbStrategy ts1 of
                None \<Rightarrow> (ts1, ns, w2)
              | Some S \<Rightarrow>
                  if \<not> isActive S then (ts1, ns, w2)
                  else
                    (case findOpportunities E S (getOpenPositions E (tick w2)) ns (step w2) of
                       (opportunities, ns1, w3) \<Rightarrow>
                         (case tradeLoop E ts1 w3 [] opportunities of (ts2, w4, decisions) \<Rightarrow>
                            (ts2, ns1, emit (RecordScan 100 opportunities decisions) w4))))))"

section \<open>Concrete inputs\<close>

text \<open>
  A quiet environment: the clock stands at noon of Thursday 15 January 2026, the
  news API and the Gamma API answer with empty lists, the model answers \<open>[]\<close>, every
  balance check and trade succeeds and there are no open positions.
\<close>

definition jan15 :: jsdate where
  "jan15 = \<lparr> millis = 1768478400000, weekDay = 4, monthIdx = 0, dateOfMonth = 15,
             fullYear = 2026, hourOfDay = 12 \<rparr>"

definition feb15 :: jsdate where
  "feb15 = \<lparr> millis = 1771156800000, weekDay = 0, monthIdx = 1, dateOfMonth = 15,
             fullYear = 2026, hourOfDay = 12 \<rparr>"

definition quietEnv :: env where
  "quietEnv =
     \<lparr> now = (\<lambda>t. jan15),
       httpGet = (\<lambda>t r. HttpOk []),
       useModel = (\<lambda>t p. ModelReturns ''[]''),
       fetchMarkets = (\<lambda>t n. Some []),
       eventsPrompt = (\<lambda>articles. ''events''),
       parseEvents = (\<lambda>text. Some []),
       matchPrompt = (\<lambda>events markets. ''match''),
       parseMatches = (\<lambda>text. Some []),
       parsePrices = (\<lambda>text. None),
       envMaxPositionSize = None,
       checkBalance = (\<lambda>t x. \<lparr> hasEnoughBalance = True, usdcBalance = 1000 \<rparr>),
       executeTrade = (\<lambda>t d. \<lparr> tr_success = True, tr_orderId = Some ''order'', tr_error = None \<rparr>),
       handleL2Deposit = (\<lambda>t x. True),
       getPositionCount = (\<lambda>t. 0),
       getOpenPositions = (\<lambda>t. Map.empty) \<rparr>"

definition w0 :: world where
  "w0 = \<lparr> tick = 0, trace = [] \<rparr>"

definition defaultConfig :: trading_config where
  "defaultConfig =
     \<lparr> unsupervisedMode = True, maxPositionSize = 100, minConfidenceThreshold = 0.7,
       maxDailyTrades = 10, maxOpenPositions = 20, riskLimitPerTrade = 50,
       tradingHoursRestriction = None \<rparr>"

definition defaultStrategy :: strategy where
  "defaultStrategy = \<lparr> runtimeSet = True, enabled = True, maxPrice = 0.9, marketFetchLimit = 100 \<rparr>"

definition ts0 :: trading_state where
  "ts0 = \<lparr> tradingConfig = defaultConfig, dailyTradeCount = 0, tradingLastResetDate = jan15,
           newsArbStrategy = Some defaultStrategy \<rparr>"

definition ns0 :: news_state where
  "ns0 = \<lparr> cfg_categories = [], positiveWords = [], negativeWords = [],
           headlineCache = None, searchCache = Map.empty,
           activeApiKeys = [''NewsAPI'' \<mapsto> ''key''],
           dailyRequestCount = 0, lastResetDate = toDateString jan15,
           searchesThisCycle = 0 \<rparr>"

text \<open>The model is overloaded at every call; the model rejects the key at every call.\<close>

definition overloadedEnv :: env where
  "overloadedEnv = quietEnv\<lparr>useModel := (\<lambda>t p. ModelThrows (Error ''503 Service Unavailable''))\<rparr>"

definition rejectingEnv :: env where
  "rejectingEnv = quietEnv\<lparr>useModel := (\<lambda>t p. ModelThrows (Error ''401 invalid api key''))\<rparr>"

text \<open>A month later the clock stands at noon of Sunday 15 February 2026.\<close>

definition febEnv :: env where
  "febEnv = quietEnv\<lparr>now := (\<lambda>t. feb15)\<rparr>"

definition tradedOut :: trading_state where
  "tradedOut = ts0\<lparr>dailyTradeCount := 10\<rparr>"

definition spentNews :: news_state where
  "spentNews = ns0\<lparr>dailyRequestCount := 95\<rparr>"

text \<open>
  A busy cycle: one article, one confirmed event, three markets priced at 72 and 28
  cents, all three matched by the model, the third one already held.
\<close>

definition rawFed :: raw_article where
  "rawFed = \<lparr> raw_title = Some ''Fed cuts rates 50bps'',
              raw_description = Some ''The Federal Reserve confirmed the cut'',
              raw_url = ''https://news.example/fed'', raw_source_name = Some ''Wire'',
              raw_publishedAt = 1768470000000 \<rparr>"

definition mktFed :: market where
  "mktFed = \<lparr> mk_conditionId = ''0xfed'',
              mk_question = ''Fed decrease rates 50+ bps March 2026?'',
              mk_outcomePrices = Some ''[0.72,0.28]'' \<rparr>"

definition mktSenate :: market where
  "mktSenate = \<lparr> mk_conditionId = ''0xsen'', mk_question = ''Senate passes the bill?'',
                 mk_outcomePrices = Some ''[0.72,0.28]'' \<rparr>"

definition mktHeld :: market where
  "mktHeld = \<lparr> mk_conditionId = ''0xheld'', mk_question = ''Already held?'',
               mk_outcomePrices = Some ''[0.72,0.28]'' \<rparr>"

definition heldPositions :: open_positions where
  "heldPositions = [''0xheld'' \<mapsto> ()]"

definition busyEnv :: env where
  "busyEnv = quietEnv\<lparr>
      httpGet := (\<lambda>t r. HttpOk [rawFed]),
      useModel := (\<lambda>t p. ModelReturns ''[{}]''),
      parseEvents := (\<lambda>text. Some [\<lparr> ev_event = ''Fed cuts rates 50bps'',
                                        ev_detail = ''confirmed'', ev_sources = [''Wire''] \<rparr>]),
      fetchMarkets := (\<lambda>t n. Some [mktFed, mktSenate, mktHeld]),
      parseMatches := (\<lambda>text.
         Some [\<lparr> rm_marketIndex = 1, rm_confirmedOutcome = ''YES'', rm_reasoning = ''cut'' \<rparr>,
               \<lparr> rm_marketIndex = 2, rm_confirmedOutcome = ''YES'', rm_reasoning = ''vote'' \<rparr>,
               \<lparr> rm_marketIndex = 3, rm_confirmedOutcome = ''NO'', rm_reasoning = ''held'' \<rparr>]),
      parsePrices := (\<lambda>text. Some (Num 0.72, Num 0.28)),
      getOpenPositions := (\<lambda>t. heldPositions) \<rparr>"

definition artFed :: article where
  "artFed = \<lparr> title = ''Fed cuts rates 50bps'',
              description = ''The Federal Reserve confirmed the cut'',
              url = ''https://news.example/fed'', source = ''Wire'',
              publishedAt = 1768470000000, sentiment = Some NeutralSentiment,
              relevanceScore = Some 1, categories = Some [] \<rparr>"

definition oppFed :: opportunity where
  "oppFed = \<lparr> opp_marketId = ''0xfed'',
      opp_question = ''Fed decrease rates 50+ bps March 2026?'',
      opp_outcome = YES, opp_currentPrice = Num 0.72,
      opp_predictedProbability = 0.95, opp_confidence = 0.95,
      opp_expectedValue = Num 4.6,
      opp_newsSignals = [''Confirmed event matched to market'', ''LLM reasoning: cut''],
      opp_riskScore = 0.1 \<rparr>"

definition oppSenate :: opportunity where
  "oppSenate = \<lparr> opp_marketId = ''0xsen'', opp_question = ''Senate passes the bill?'',
      opp_outcome = YES, opp_currentPrice = Num 0.72,
      opp_predictedProbability = 0.95, opp_confidence = 0.95,
      opp_expectedValue = Num 4.6,
      opp_newsSignals = [''Confirmed event matched to market'', ''LLM reasoning: vote''],
      opp_riskScore = 0.1 \<rparr>"

definition decFed :: decision where
  "decFed = \<lparr> dec_shouldTrade = True, dec_marketId = ''0xfed'', dec_outcome = YES,
      dec_size = 50, dec_price = Num 0.72, dec_confidence = 0.95,
      dec_reasoning = ConfirmedEvent YES (Num 0.72)
        [''Confirmed event matched to market'', ''LLM reasoning: cut''] \<rparr>"

text \<open>A service that may trade once a day, before and after its one trade.\<close>

definition oneTradeLeft :: trading_state where
  "oneTradeLeft = ts0\<lparr>tradingConfig := defaultConfig\<lparr>maxDailyTrades := 1\<rparr>\<rparr>"

definition noTradeLeft :: trading_state where
  "noTradeLeft = oneTradeLeft\<lparr>dailyTradeCount := 1\<rparr>"

text \<open>
  The executor reports the balance error at every call; the deposit succeeds in the
  first environment and fails in the second.
\<close>

definition noFundsEnv :: env where
  "noFundsEnv = quietEnv\<lparr>executeTrade := (\<lambda>t d.
      \<lparr> tr_success = False, tr_orderId = None,
        tr_error = Some ''not enough balance / allowance'' \<rparr>)\<rparr>"

definition noDepositEnv :: env where
  "noDepositEnv = noFundsEnv\<lparr>handleL2Deposit := (\<lambda>t x. False)\<rparr>"

text \<open>
  A news service whose headline cache, filled at the time of the clock, holds the
  articles A and B, and a breaking search that returns B and C.
\<close>

definition artA :: article where
  "artA = \<lparr> title = ''A'', description = ''first'', url = ''a'', source = ''Wire'',
            publishedAt = 1768470000000, sentiment = Some NeutralSentiment,
            relevanceScore = Some 1, categories = Some [] \<rparr>"

definition artB :: article where
  "artB = \<lparr> title = ''B'', description = ''second'', url = ''b'', source = ''Wire'',
            publishedAt = 1768470000000, sentiment = Some NeutralSentiment,
            relevanceScore = Some 1, categories = Some [] \<rparr>"

definition artC :: article where
  "artC = \<lparr> title = ''C'', description = ''third'', url = ''c'', source = ''Unknown'',
            publishedAt = 1768470000000, sentiment = Some NeutralSentiment,
            relevanceScore = Some 1, categories = None \<rparr>"

definition rawB :: raw_article where
  "rawB = \<lparr> raw_title = Some ''B'', raw_description = Some ''second, again'',
            raw_url = ''b2'', raw_source_name = Some ''Desk'', raw_publishedAt = 1768470000000 \<rparr>"

definition rawC :: raw_article where
  "rawC = \<lparr> raw_title = Some ''C'', raw_description = Some ''third'',
            raw_url = ''c'', raw_source_name = None, raw_publishedAt = 1768470000000 \<rparr>"

definition cachedNews :: news_state where
  "cachedNews = ns0\<lparr>headlineCache := Some ([artA, artB], 1768478400000)\<rparr>"

definition bcEnv :: env where
  "bcEnv = quietEnv\<lparr>httpGet := (\<lambda>t r. HttpOk [rawB, rawC])\<rparr>"

text \<open>
  A keyword extractor that gives every text the keyword-overlap score 0.1, and an
  article with a positive sentiment.
\<close>

definition flatExtractor :: "unit keyword_extractor" where
  "flatExtractor = \<lparr> extractKeywords = (\<lambda>t r. ()), createSearchQuery = (\<lambda>k. ''query''),
                      calculateRelevanceScore = (\<lambda>text k. 0.1) \<rparr>"

definition artMarch :: article where
  "artMarch = \<lparr> title = ''Fed to decrease rates in March'',
                description = ''Officials confirmed the plan'', url = ''m'', source = ''Wire'',
                publishedAt = 1768470000000, sentiment = Some NeutralSentiment,
                relevanceScore = Some 1, categories = Some [] \<rparr>"

definition artGood :: article where
  "artGood = artFed\<lparr>sentiment := Some Positive\<rparr>"

section \<open>Reading a trace\<close>

definition sleeps :: "event list \<Rightarrow> nat list" where
  "sleeps tr = concat (map (\<lambda>e. case e of Sleep ms \<Rightarrow> [ms] | _ \<Rightarrow> []) tr)"

definition llm_calls :: "event list \<Rightarrow> nat" where
  "llm_calls tr = length (filter (\<lambda>e. case e of LLMCall p \<Rightarrow> True | _ \<Rightarrow> False) tr)"


definition executions :: "event list \<Rightarrow> decision list" where
  "executions tr = concat (map (\<lambda>e. case e of ExecuteTrade d \<Rightarrow> [d] | _ \<Rightarrow> []) tr)"

definition deposits :: "event list \<Rightarrow> real list" where
  "deposits tr = concat (map (\<lambda>e. case e of Deposit x \<Rightarrow> [x] | _ \<Rightarrow> []) tr)"

section \<open>Basic facts\<close>

lemma world_simps [simp]:
  "tick (emit e w) = tick w"
  "trace (emit e w) = trace w @ [e]"
  "tick (step w) = Suc (tick w)"
  "trace (step w) = trace w"
  by (simp_all add: emit_def step_def)

section \<open>The busy cycle, step by step\<close>

lemma callLLM_success:
  "attempt_outcome E prompt (tick w) = Inr text \<Longrightarrow>
     callLLM E prompt w = (Inr text, emit (LLMCall prompt) (step w))"
  unfolding callLLM_def by (subst callLLM_loop.simps) simp

lemmas busy_defs = busyEnv_def quietEnv_def jan15_def ns0_def defaultStrategy_def
  rawFed_def mktFed_def mktSenate_def mktHeld_def defaultConfig_def ts0_def artFed_def

lemmas news_defs = fetchForArbitrage_def fetchHeadlines_def headlinesFresh_def
  canMakeRequest_def checkDailyReset_def trackRequest_def clock_def rawValid_def
  cachedHeadlines_def toDateString_def MAX_DAILY_REQUESTS_def toArticle_def
  analyzeSentiment_def categorizeArticle_def breakingArticles_def

lemma busy_fetchForArbitrage:
  "fetchForArbitrage busyEnv ns0 w =
     ([artFed],
      ns0\<lparr>headlineCache := Some ([artFed], 1768478400000), dailyRequestCount := 2\<rparr>,
      w\<lparr>tick := tick w + 6,
        trace := trace w @ [ApiGet (TopHeadlines ''us'' 100),
                            ApiGet (breakingRequest 1768478400000)]\<rparr>)"
  by (simp add: news_defs Let_def busy_defs emit_def step_def)

lemma busy_findOpportunities:
  "findOpportunities busyEnv defaultStrategy heldPositions ns0 w =
     ([oppFed, oppSenate],
      ns0\<lparr>headlineCache := Some ([artFed], 1768478400000), dailyRequestCount := 2\<rparr>,
      w\<lparr>tick := tick w + 9,
        trace := trace w @ [ApiGet (TopHeadlines ''us'' 100),
                            ApiGet (breakingRequest 1768478400000),
                            LLMCall ''events'', FetchMarkets 100, LLMCall ''match'']\<rparr>)"
  apply (simp add: findOpportunities_def busy_fetchForArbitrage)
  apply (simp add: defaultStrategy_def)
  apply (simp add: extractConfirmedEvents_def searchMatchingMarkets_def callLLM_success
      attempt_outcome_def busyEnv_def quietEnv_def mktFed_def mktSenate_def mktHeld_def
      outcomePrice_def toOpportunity_def oppFed_def oppSenate_def heldPositions_def
      defaultStrategy_def emit_def step_def)
  done

lemma evaluate_oppFed:
  "evaluate (defaultConfig\<lparr>maxDailyTrades := m\<rparr>) oppFed = decFed"
  by (simp add: evaluate_def defaultConfig_def oppFed_def decFed_def)

lemma busy_tradeLoop:
  "tradeLoop busyEnv oneTradeLeft w [] [oppFed, oppSenate] =
     (noTradeLeft,
      w\<lparr>tick := tick w + 3,
        trace := trace w @ [CheckBalance 50, ExecuteTrade decFed, RefreshPositions]\<rparr>,
      [decFed])"
proof -
  have c: "canTrade busyEnv oneTradeLeft w = (True, step w)" for w
    by (simp add: canTrade_def busyEnv_def quietEnv_def oneTradeLeft_def ts0_def
        defaultConfig_def)
  have c': "canTrade busyEnv noTradeLeft w = (False, w)" for w
    by (simp add: canTrade_def noTradeLeft_def oneTradeLeft_def ts0_def defaultConfig_def)
  have h: "handleTrade busyEnv oneTradeLeft w decFed =
             (noTradeLeft, w\<lparr>tick := tick w + 2,
                trace := trace w @ [CheckBalance 50, ExecuteTrade decFed, RefreshPositions]\<rparr>)" for w
    by (simp add: handleTrade_def busyEnv_def quietEnv_def decFed_def noTradeLeft_def
        oneTradeLeft_def ts0_def emit_def step_def)
  have ev: "evaluate (tradingConfig oneTradeLeft) oppFed = decFed"
    by (simp add: oneTradeLeft_def evaluate_oppFed)
  have st: "dec_shouldTrade decFed \<and> unsupervisedMode (tradingConfig oneTradeLeft)"
    by (simp add: decFed_def oneTradeLeft_def defaultConfig_def)
  show ?thesis
    by (simp add: c c' h ev st step_def)
qed

lemma busy_scanAndTrade:
  "scanAndTrade busyEnv oneTradeLeft ns0 w0 =
     (noTradeLeft,
      ns0\<lparr>headlineCache := Some ([artFed], 1768478400000), dailyRequestCount := 2\<rparr>,
      \<lparr> tick = 15,
        trace = [ApiGet (TopHeadlines ''us'' 100), ApiGet (breakingRequest 1768478400000),
                 LLMCall ''events'', FetchMarkets 100, LLMCall ''match'',
                 CheckBalance 50, ExecuteTrade decFed, RefreshPositions,
                 RecordScan 100 [oppFed, oppSenate] [decFed]] \<rparr>)"
proof -
  have g: "ats_checkDailyReset busyEnv oneTradeLeft w0 = (oneTradeLeft, step w0)"
    by (simp add: ats_checkDailyReset_def clock_def busyEnv_def quietEnv_def oneTradeLeft_def
        ts0_def getDate_def)
  have c: "canTrade busyEnv oneTradeLeft w = (True, step w)" for w
    by (simp add: canTrade_def busyEnv_def quietEnv_def oneTradeLeft_def ts0_def
        defaultConfig_def)
  have s: "newsArbStrategy oneTradeLeft = Some defaultStrategy"
    by (simp add: oneTradeLeft_def ts0_def)
  note l = busy_tradeLoop
  have o: "getOpenPositions busyEnv t = heldPositions" for t
    by (simp add: busyEnv_def)
  have act: "isActive defaultStrategy"
    by (simp add: isActive_def defaultStrategy_def)
  have "scanAndTrade busyEnv oneTradeLeft ns0 w0 =
     (noTradeLeft,
      ns0\<lparr>headlineCache := Some ([artFed], 1768478400000), dailyRequestCount := 2\<rparr>,
      emit (RecordScan 100 [oppFed, oppSenate] [decFed])
        ((step (step (step w0)))\<lparr>tick := tick (step (step (step w0))) + 9 + 3,
           trace := trace w0 @ [ApiGet (TopHeadlines ''us'' 100),
                 ApiGet (breakingRequest 1768478400000),
                 LLMCall ''events'', FetchMarkets 100, LLMCall ''match'',
                 CheckBalance 50, ExecuteTrade decFed, RefreshPositions]\<rparr>))"
    by (simp add: scanAndTrade_def g c s o act busy_findOpportunities l
             del: tradeLoop.simps)
  then show ?thesis
    by (simp add: w0_def step_def emit_def)
qed

section \<open>Daily resets\<close>

lemma news_checkDailyReset_new_day:
  "toDateString (now E (tick w)) \<noteq> lastResetDate ns \<Longrightarrow>
     dailyRequestCount (fst (checkDailyReset E ns w)) = 0"
  by (simp add: checkDailyReset_def Let_def)

lemma ats_checkDailyReset_count:
  "dailyTradeCount (fst (ats_checkDailyReset E ts w)) =
     (if dateOfMonth (now E (tick w)) \<noteq> dateOfMonth (tradingLastResetDate ts) then 0
      else dailyTradeCount ts)"
  by (simp add: ats_checkDailyReset_def clock_def getDate_def)

text \<open>
  Claim C1 at the input where the code departs from it. The last resets happened on
  15 January 2026, with 95 news requests and 10 trades counted since; the first checks
  of 15 February 2026 follow. The news service compares the printed dates and resets
  its counter to 0. The trading service compares the days of the month, 15 and 15,
  keeps its counter at 10, and the scan of that day is skipped at the trade limit
  without any call going out.
\<close>

theorem C1_trade_counter_kept_on_same_day_of_month:
  "dailyRequestCount (fst (snd (canMakeRequest febEnv spentNews w0))) = 0
   \<and> dailyTradeCount (fst (ats_checkDailyReset febEnv tradedOut w0)) = 10
   \<and> scanAndTrade febEnv tradedOut spentNews w0 = (tradedOut, spentNews, \<lparr> tick = 1, trace = [] \<rparr>)"
proof -
  have a: "dailyRequestCount (fst (snd (canMakeRequest febEnv spentNews w0))) = 0"
    by (simp add: canMakeRequest_def checkDailyReset_def febEnv_def quietEnv_def feb15_def
        jan15_def spentNews_def ns0_def toDateString_def MAX_DAILY_REQUESTS_def Let_def)
  have b: "ats_checkDailyReset febEnv tradedOut w0 = (tradedOut, step w0)"
    by (simp add: ats_checkDailyReset_def clock_def febEnv_def quietEnv_def feb15_def
        jan15_def tradedOut_def ts0_def getDate_def)
  have c: "canTrade febEnv tradedOut w = (False, w)" for w
    by (simp add: canTrade_def tradedOut_def ts0_def defaultConfig_def)
  have d: "dailyTradeCount tradedOut = 10"
    by (simp add: tradedOut_def)
  have e: "step w0 = \<lparr> tick = 1, trace = [] \<rparr>"
    by (simp add: w0_def step_def)
  have "scanAndTrade febEnv tradedOut spentNews w0 = (tradedOut, spentNews, step w0)"
    by (simp add: b c scanAndTrade_def)
  with a show ?thesis
    by (simp add: b d e)
qed

section \<open>The deposit recovery of handleTrade\<close>

text \<open>
  Claim C2, as the code has it. When the balance check passes and the first
  \<open>executeTrade\<close> fails with the \<open>not enough balance / allowance\<close> error,
  \<open>handleTrade\<close> asks for exactly one deposit of the size of the decision. If the
  deposit succeeds it waits 5 seconds and retries the order exactly once; whatever the
  retry returns, no further deposit or retry follows, and the trade is counted only
  when the retry succeeds. If the deposit fails, nothing follows it: no wait and no
  retry. In each case \<open>handleTrade\<close> returns, so the cycle goes on.
\<close>

theorem C2_handleTrade_deposit_recovery:
  assumes "hasEnoughBalance (checkBalance E (tick w) (dec_size d))"
      and "\<not> tr_success (executeTrade E (tick w + 1) d)"
      and "balanceIssue (tr_error (executeTrade E (tick w + 1) d))"
  shows "handleTrade E ts w d =
     (if handleL2Deposit E (tick w + 2) (dec_size d) then
        (if tr_success (executeTrade E (tick w + 3) d)
         then (ts\<lparr>dailyTradeCount := dailyTradeCount ts + 1\<rparr>,
               w\<lparr>tick := tick w + 4,
                 trace := trace w @ [CheckBalance (dec_size d), ExecuteTrade d,
                                      Deposit (dec_size d), Sleep 5000, ExecuteTrade d,
                                      RefreshPositions]\<rparr>)
         else (ts, w\<lparr>tick := tick w + 4,
                 trace := trace w @ [CheckBalance (dec_size d), ExecuteTrade d,
                                      Deposit (dec_size d), Sleep 5000, ExecuteTrade d]\<rparr>))
      else (ts, w\<lparr>tick := tick w + 3,
                 trace := trace w @ [CheckBalance (dec_size d), ExecuteTrade d,
                                      Deposit (dec_size d)]\<rparr>))"
  using assms
  by (simp add: handleTrade_def Let_def emit_def step_def numeral_3_eq_3 numeral_2_eq_2)

theorem C2_handleTrade_deposit_recovery_witness:
  "handleTrade noFundsEnv ts0 w0 decFed =
     (ts0, \<lparr> tick = 4,
            trace = [CheckBalance 50, ExecuteTrade decFed, Deposit 50, Sleep 5000,
                     ExecuteTrade decFed] \<rparr>)
   \<and> deposits (trace (snd (handleTrade noFundsEnv ts0 w0 decFed))) = [50]
   \<and> sleeps (trace (snd (handleTrade noFundsEnv ts0 w0 decFed))) = [5000]
   \<and> executions (trace (snd (handleTrade noFundsEnv ts0 w0 decFed))) = [decFed, decFed]"
proof -
  have a: "hasEnoughBalance (checkBalance noFundsEnv (tick w0) (dec_size decFed))"
    by (simp add: noFundsEnv_def quietEnv_def)
  have b: "\<not> tr_success (executeTrade noFundsEnv (tick w0 + 1) decFed)"
    by (simp add: noFundsEnv_def quietEnv_def)
  have c: "balanceIssue (tr_error (executeTrade noFundsEnv (tick w0 + 1) decFed))"
    by (simp add: noFundsEnv_def quietEnv_def balanceIssue_def)
  have "handleTrade noFundsEnv ts0 w0 decFed =
     (ts0, \<lparr> tick = 4,
            trace = [CheckBalance 50, ExecuteTrade decFed, Deposit 50, Sleep 5000,
                     ExecuteTrade decFed] \<rparr>)"
    using C2_handleTrade_deposit_recovery [OF a b c, of ts0]
    by (simp add: noFundsEnv_def quietEnv_def w0_def decFed_def)
  then show ?thesis
    by (simp add: deposits_def sleeps_def executions_def)
qed

text \<open>
  The claim as it was stated promises the wait and the retry after every such
  failure. When the deposit itself fails, the order is sent once, the deposit is
  asked for once, and neither a wait nor a retry follows.
\<close>

theorem C2_no_retry_counterexample:
  "handleTrade noDepositEnv ts0 w0 decFed =
     (ts0, \<lparr> tick = 3, trace = [CheckBalance 50, ExecuteTrade decFed, Deposit 50] \<rparr>)
   \<and> sleeps (trace (snd (handleTrade noDepositEnv ts0 w0 decFed))) = []
   \<and> length (executions (trace (snd (handleTrade noDepositEnv ts0 w0 decFed)))) = 1"
proof -
  have "handleTrade noDepositEnv ts0 w0 decFed =
     (ts0, \<lparr> tick = 3, trace = [CheckBalance 50, ExecuteTrade decFed, Deposit 50] \<rparr>)"
    by (simp add: handleTrade_def noDepositEnv_def noFundsEnv_def quietEnv_def balanceIssue_def
        w0_def decFed_def emit_def step_def)
  then show ?thesis
    by (simp add: sleeps_def executions_def)
qed

section \<open>The trade guard inside a cycle\<close>

lemma canTrade_trace:
  "trace (snd (canTrade E ts w)) = trace w"
  by (simp add: canTrade_def clock_def Let_def split: option.splits prod.splits)

lemma handleTrade_config:
  "tradingConfig (fst (handleTrade E ts w d)) = tradingConfig ts"
  by (simp add: handleTrade_def Let_def)

lemma executions_simps:
  "executions [] = []"
  "executions (e # tr) = (case e of ExecuteTrade d \<Rightarrow> [d] | _ \<Rightarrow> []) @ executions tr"
  "executions (tr @ tr') = executions tr @ executions tr'"
  by (simp_all add: executions_def)

lemma handleTrade_executions:
  "set (executions (trace (snd (handleTrade E ts w d))))
     \<subseteq> insert d (set (executions (trace w)))"
  by (auto simp add: handleTrade_def Let_def executions_simps)

lemma tradeLoop_trip:
  assumes "\<not> fst (canTrade E ts w)"
  shows "tradeLoop E ts w decisions (opp # rest) = (ts, snd (canTrade E ts w), decisions)
         \<and> trace (snd (canTrade E ts w)) = trace w"
proof (cases "canTrade E ts w")
  case (Pair ok w1)
  with assms canTrade_trace [of E ts w] show ?thesis by simp
qed

lemma tradeLoop_prefix:
  "\<exists>k\<le>length opps. snd (snd (tradeLoop E ts w decs opps)) =
       decs @ map (evaluate (tradingConfig ts)) (take k opps)"
proof (induction opps arbitrary: ts w decs)
  case Nil
  then show ?case by simp
next
  case (Cons opp rest)
  obtain ok w1 where c: "canTrade E ts w = (ok, w1)"
    by (cases "canTrade E ts w")
  show ?case
  proof (cases ok)
    case False
    with c have "snd (snd (tradeLoop E ts w decs (opp # rest))) =
                   decs @ map (evaluate (tradingConfig ts)) (take 0 (opp # rest))"
      by simp
    then show ?thesis by blast
  next
    case True
    let ?d = "evaluate (tradingConfig ts) opp"
    obtain ts2 w2
      where n: "tradeLoop E ts w decs (opp # rest) = tradeLoop E ts2 w2 (decs @ [?d]) rest"
        and cfg: "tradingConfig ts2 = tradingConfig ts"
    proof (cases "dec_shouldTrade ?d \<and> unsupervisedMode (tradingConfig ts)")
      case t: True
      obtain ts2 w2 where h: "handleTrade E ts w1 ?d = (ts2, w2)"
        by (cases "handleTrade E ts w1 ?d")
      with handleTrade_config [of E ts w1 ?d]
      have "tradingConfig ts2 = tradingConfig ts" by simp
      moreover from c True t h
      have "tradeLoop E ts w decs (opp # rest) = tradeLoop E ts2 w2 (decs @ [?d]) rest"
        by (simp add: Let_def)
      ultimately show ?thesis using that by blast
    next
      case f: False
      from c True f
      have "tradeLoop E ts w decs (opp # rest) = tradeLoop E ts w1 (decs @ [?d]) rest"
        by (auto simp add: Let_def)
      then show ?thesis using that by blast
    qed
    from Cons.IH [of ts2 w2 "decs @ [?d]"] obtain k where k: "k \<le> length rest"
      "snd (snd (tradeLoop E ts2 w2 (decs @ [?d]) rest)) =
         (decs @ [?d]) @ map (evaluate (tradingConfig ts2)) (take k rest)"
      by blast
    then have "snd (snd (tradeLoop E ts w decs (opp # rest))) =
                 decs @ map (evaluate (tradingConfig ts)) (take (Suc k) (opp # rest))"
      using n cfg by simp
    moreover have "Suc k \<le> length (opp # rest)" using k by simp
    ultimately show ?thesis by blast
  qed
qed

lemma tradeLoop_executions:
  "set (executions (trace (fst (snd (tradeLoop E ts w decs opps))))) \<subseteq>
     set (executions (trace w)) \<union> set (snd (snd (tradeLoop E ts w decs opps)))"
proof (induction opps arbitrary: ts w decs)
  case Nil
  then show ?case by simp
next
  case (Cons opp rest)
  obtain ok w1 where c: "canTrade E ts w = (ok, w1)"
    by (cases "canTrade E ts w")
  with canTrade_trace [of E ts w] have t1: "trace w1 = trace w" by simp
  show ?case
  proof (cases ok)
    case False
    with c t1 show ?thesis by simp
  next
    case True
    let ?d = "evaluate (tradingConfig ts) opp"
    have dm: "?d \<in> set (snd (snd (tradeLoop E ts' w' (decs @ [?d]) rest)))" for ts' w'
      using tradeLoop_prefix [of rest E ts' w' "decs @ [?d]"] by auto
    show ?thesis
    proof (cases "dec_shouldTrade ?d \<and> unsupervisedMode (tradingConfig ts)")
      case t: True
      obtain ts2 w2 where h: "handleTrade E ts w1 ?d = (ts2, w2)"
        by (cases "handleTrade E ts w1 ?d")
      with handleTrade_executions [of E ts w1 ?d] t1
      have e: "set (executions (trace w2)) \<subseteq> insert ?d (set (executions (trace w)))"
        by simp
      from c True t h
      have n: "tradeLoop E ts w decs (opp # rest) = tradeLoop E ts2 w2 (decs @ [?d]) rest"
        by (simp add: Let_def)
      from Cons.IH [of ts2 w2 "decs @ [?d]"] e dm [of ts2 w2] show ?thesis
        unfolding n by blast
    next
      case f: False
      from c True f
      have n: "tradeLoop E ts w decs (opp # rest) = tradeLoop E ts w1 (decs @ [?d]) rest"
        by (auto simp add: Let_def)
      from Cons.IH [of ts w1 "decs @ [?d]"] t1 show ?thesis
        unfolding n by auto
    qed
  qed
qed

text \<open>
  Claim C3, as the code has it. When \<open>canTrade\<close> answers no at an opportunity of the
  loop, the loop is left at once: nothing is evaluated or executed for that
  opportunity or for the ones after it (the trace is the one before the check), and
  the decisions of the cycle are the ones pushed before. Over a whole run of the loop
  the decisions are the evaluations of a first part of the opportunities, in their
  order, and every order sent is one of these decisions. The opportunities left over
  get no decision; they only stay in the opportunity list that \<open>scanAndTrade\<close> hands
  to the report.
\<close>

theorem C3_guard_trip_leaves_loop:
  "(\<not> fst (canTrade E ts w) \<longrightarrow>
      tradeLoop E ts w decisions (opp # rest) = (ts, snd (canTrade E ts w), decisions)
      \<and> trace (snd (canTrade E ts w)) = trace w)
   \<and> (\<exists>k\<le>length opps. snd (snd (tradeLoop E ts w decisions opps)) =
         decisions @ map (evaluate (tradingConfig ts)) (take k opps))
   \<and> set (executions (trace (fst (snd (tradeLoop E ts w decisions opps)))))
       \<subseteq> set (executions (trace w)) \<union> set (snd (snd (tradeLoop E ts w decisions opps)))"
  using tradeLoop_trip [of E ts w decisions opp rest]
        tradeLoop_prefix [of opps E ts w decisions]
        tradeLoop_executions [of E ts w decisions opps]
  by blast

theorem C3_guard_trip_leaves_loop_witness:
  "tradeLoop quietEnv noTradeLeft w0 [decFed] [oppSenate] = (noTradeLeft, w0, [decFed])"
proof -
  have a: "canTrade quietEnv noTradeLeft w0 = (False, w0)"
    by (simp add: canTrade_def noTradeLeft_def oneTradeLeft_def ts0_def defaultConfig_def)
  then have "\<not> fst (canTrade quietEnv noTradeLeft w0)" by simp
  with C3_guard_trip_leaves_loop [of quietEnv noTradeLeft w0 "[decFed]" oppSenate "[]" "[]"] a
  show ?thesis by simp
qed

text \<open>
  The claim as it was stated has the left-over opportunities recorded as skipped. In
  the busy cycle with one trade allowed, the first opportunity is traded, the guard
  trips at the second, and the scan is recorded with both opportunities and the single
  decision of the first: the second market has no decision, traded or skipped.
\<close>

theorem C3_no_skip_record_counterexample:
  "last (trace (snd (snd (scanAndTrade busyEnv oneTradeLeft ns0 w0)))) =
     RecordScan 100 [oppFed, oppSenate] [decFed]
   \<and> opp_marketId oppSenate \<notin> set (map dec_marketId [decFed])
   \<and> executions (trace (snd (snd (scanAndTrade busyEnv oneTradeLeft ns0 w0)))) = [decFed]"
  by (simp add: busy_scanAndTrade executions_def oppSenate_def decFed_def)

section \<open>Opportunities and open positions\<close>

lemma evaluateMatches_inv:
  "opp \<in> set (evaluateMatches E cfg op ms) \<Longrightarrow>
     js_lt (opp_currentPrice opp) (Num (maxPrice cfg)) \<and> op (opp_marketId opp) = None"
proof (induction ms)
  case Nil
  then show ?case by simp
next
  case (Cons m ms)
  show ?case
  proof (cases "op (mm_conditionId m) = None")
    case False
    with Cons show ?thesis by simp
  next
    case True
    show ?thesis
    proof (cases "js_lt (mm_currentPrice m) (Num (maxPrice cfg))")
      case False
      with True Cons show ?thesis by simp
    next
      case lt: True
      from Cons.prems True lt
      have "opp = toOpportunity E m \<or> opp \<in> set (evaluateMatches E cfg op ms)" by simp
      then show ?thesis
      proof
        assume "opp = toOpportunity E m"
        with True lt show ?thesis by (simp add: toOpportunity_def)
      next
        assume "opp \<in> set (evaluateMatches E cfg op ms)"
        then show ?thesis by (rule Cons.IH)
      qed
    qed
  qed
qed

lemma findOpportunities_inv:
  "opp \<in> set (fst (findOpportunities E cfg op ns w)) \<Longrightarrow>
     js_lt (opp_currentPrice opp) (Num (maxPrice cfg)) \<and> op (opp_marketId opp) = None"
  by (auto simp add: findOpportunities_def split: if_splits prod.splits
           dest: evaluateMatches_inv)

lemma tradeLoop_decisions:
  "d \<in> set (snd (snd (tradeLoop E ts w decs opps))) \<Longrightarrow>
     d \<in> set decs \<or> (\<exists>opp\<in>set opps. dec_marketId d = opp_marketId opp)"
proof (induction opps arbitrary: ts w decs)
  case Nil
  then show ?case by simp
next
  case (Cons opp rest)
  show ?case
  proof (cases "fst (canTrade E ts w)")
    case False
    with Cons.prems show ?thesis by (simp split: prod.splits)
  next
    case True
    obtain w1 where c: "canTrade E ts w = (True, w1)"
      using True by (cases "canTrade E ts w") auto
    let ?d = "evaluate (tradingConfig ts) opp"
    have m: "dec_marketId ?d = opp_marketId opp" by (simp add: evaluate_def Let_def)
    show ?thesis
    proof (cases "dec_shouldTrade ?d \<and> unsupervisedMode (tradingConfig ts)")
      case True
      obtain ts2 w2 where h: "handleTrade E ts w1 ?d = (ts2, w2)"
        by (cases "handleTrade E ts w1 ?d") auto
      from Cons.prems c True h
      have "d \<in> set (snd (snd (tradeLoop E ts2 w2 (decs @ [?d]) rest)))"
        by (simp add: Let_def)
      from Cons.IH [OF this] m show ?thesis by auto
    next
      case False
      from Cons.prems c False
      have "d \<in> set (snd (snd (tradeLoop E ts w1 (decs @ [?d]) rest)))"
        by (auto simp add: Let_def)
      from Cons.IH [OF this] m show ?thesis by auto
    qed
  qed
qed

text \<open>
  Claim C4. Every opportunity that \<open>findOpportunities\<close> returns has a current price
  below the \<open>maxPrice\<close> of the strategy (a price that is not a number is never below
  it) and a market that is not a key of the open positions passed in. The evaluator
  is applied only to the opportunities returned, so every decision of the loop of
  \<open>scanAndTrade\<close> over them, in any state, is about a market outside the open
  positions.
\<close>

theorem C4_opportunities_priced_below_ceiling_and_not_held:
  "(\<forall>opp \<in> set (fst (findOpportunities E cfg openPositions ns w)).
       js_lt (opp_currentPrice opp) (Num (maxPrice cfg)) \<and> openPositions (opp_marketId opp) = None)
   \<and> (\<forall>d \<in> set (snd (snd (tradeLoop E' ts w' []
                              (fst (findOpportunities E cfg openPositions ns w))))).
         openPositions (dec_marketId d) = None)"
proof (rule conjI)
  show "\<forall>opp \<in> set (fst (findOpportunities E cfg openPositions ns w)).
       js_lt (opp_currentPrice opp) (Num (maxPrice cfg)) \<and> openPositions (opp_marketId opp) = None"
    using findOpportunities_inv by blast
next
  show "\<forall>d \<in> set (snd (snd (tradeLoop E' ts w' []
                              (fst (findOpportunities E cfg openPositions ns w))))).
         openPositions (dec_marketId d) = None"
  proof
    fix d
    assume "d \<in> set (snd (snd (tradeLoop E' ts w' []
                                  (fst (findOpportunities E cfg openPositions ns w)))))"
    from tradeLoop_decisions [OF this]
    obtain opp where o: "opp \<in> set (fst (findOpportunities E cfg openPositions ns w))"
      and m: "dec_marketId d = opp_marketId opp" by auto
    from findOpportunities_inv [OF o] m show "openPositions (dec_marketId d) = None" by simp
  qed
qed

theorem C4_opportunities_priced_below_ceiling_and_not_held_witness:
  "fst (findOpportunities busyEnv defaultStrategy heldPositions ns0 w0) = [oppFed, oppSenate]
   \<and> heldPositions ''0xheld'' = Some ()
   \<and> js_lt (opp_currentPrice oppFed) (Num (maxPrice defaultStrategy))
   \<and> heldPositions (opp_marketId oppFed) = None
   \<and> decFed \<in> set (snd (snd (tradeLoop busyEnv oneTradeLeft w0 []
                        (fst (findOpportunities busyEnv defaultStrategy heldPositions ns0 w0)))))
   \<and> heldPositions (dec_marketId decFed) = None"
proof -
  have f: "fst (findOpportunities busyEnv defaultStrategy heldPositions ns0 w0) = [oppFed, oppSenate]"
    by (simp add: busy_findOpportunities)
  have l: "snd (snd (tradeLoop busyEnv oneTradeLeft w0 [] [oppFed, oppSenate])) = [decFed]"
    by (simp add: busy_tradeLoop del: tradeLoop.simps)
  have m: "decFed \<in> set (snd (snd (tradeLoop busyEnv oneTradeLeft w0 []
                        (fst (findOpportunities busyEnv defaultStrategy heldPositions ns0 w0)))))"
    unfolding f l by simp
  have o: "oppFed \<in> set (fst (findOpportunities busyEnv defaultStrategy heldPositions ns0 w0))"
    by (simp add: f)
  have k: "heldPositions ''0xheld'' = Some ()" by (simp add: heldPositions_def)
  from C4_opportunities_priced_below_ceiling_and_not_held
         [of busyEnv defaultStrategy heldPositions ns0 w0 busyEnv oneTradeLeft w0] o m f k
  show ?thesis by blast
qed

section \<open>The per-cycle search counter\<close>

lemma checkDailyReset_searches:
  "checkDailyReset E ns w = (ns1, w1) \<Longrightarrow> searchesThisCycle ns1 = searchesThisCycle ns"
  by (auto simp add: checkDailyReset_def Let_def split: if_splits)

lemma canMakeRequest_searches:
  "canMakeRequest E ns w = (ok, ns1, w1) \<Longrightarrow> searchesThisCycle ns1 = searchesThisCycle ns"
  by (auto simp add: canMakeRequest_def split: if_splits prod.splits
           dest: checkDailyReset_searches)

lemma trackRequest_searches [simp]:
  "searchesThisCycle (trackRequest ns) = searchesThisCycle ns"
  by (simp add: trackRequest_def)

lemma fetchHeadlines_searches:
  "fetchHeadlines E ns w = (hs, ns1, w1) \<Longrightarrow> searchesThisCycle ns1 = searchesThisCycle ns"
  by (auto simp add: fetchHeadlines_def Let_def
           split: if_splits prod.splits http_result.splits dest: canMakeRequest_searches)

lemma fetchForArbitrage_searches:
  "fetchForArbitrage E ns w = (as, ns1, w1) \<Longrightarrow> searchesThisCycle ns1 = searchesThisCycle ns"
  by (auto simp add: fetchForArbitrage_def Let_def
           split: if_splits prod.splits http_result.splits
           dest!: canMakeRequest_searches fetchHeadlines_searches)

lemma findOpportunities_searches:
  "findOpportunities E S op ns w = (opps, ns1, w1) \<Longrightarrow>
     searchesThisCycle ns1 = searchesThisCycle ns"
  by (auto simp add: findOpportunities_def
           split: if_splits prod.splits dest!: fetchForArbitrage_searches)

lemma resetCycleCounter_zero:
  "searchesThisCycle (resetCycleCounter ns) = 0"
  by (simp add: resetCycleCounter_def)

lemma searchStep_capped:
  "searchesThisCycle ns = MAX_SEARCHES_PER_CYCLE \<Longrightarrow>
     searchStep X E ns w t kw q k = (neutralSignal t, ns, w)"
  by (simp add: searchStep_def)

text \<open>
  Claim C5 against the code. \<open>scanAndTrade\<close> never calls \<open>resetCycleCounter\<close>, and
  nothing on its path writes \<open>searchesThisCycle\<close>: whatever the environment and the
  states, the counter of the news service after a scan is the counter before it. A
  counter that has reached 8 stays at 8 over every later cycle, and the targeted
  search of \<open>getMarketSignals\<close> is refused from then on.
\<close>

theorem C5_scan_keeps_search_counter:
  "searchesThisCycle (fst (snd (scanAndTrade E ts ns w))) = searchesThisCycle ns"
  by (auto simp add: scanAndTrade_def
           split: if_splits prod.splits option.splits dest!: findOpportunities_searches)

section \<open>The retry policy of callLLM\<close>

lemma callLLM_all_transient:
  assumes "\<And>k. k < 3 \<Longrightarrow> \<exists>e. attempt_outcome E prompt (tick w + k) = Inl e \<and> isRetryable e"
  shows "\<exists>e. attempt_outcome E prompt (tick w + 2) = Inl e \<and>
     callLLM E prompt w =
       (Inl e, w\<lparr>tick := tick w + 3,
                 trace := trace w @ [LLMCall prompt, Sleep 10000, LLMCall prompt,
                                      Sleep 20000, LLMCall prompt]\<rparr>)"
proof -
  from assms[of 0] obtain e0
    where e0: "attempt_outcome E prompt (tick w) = Inl e0" "isRetryable e0" by auto
  from assms[of 1] obtain e1
    where e1: "attempt_outcome E prompt (Suc (tick w)) = Inl e1" "isRetryable e1" by auto
  from assms[of 2] obtain e2
    where e2: "attempt_outcome E prompt (Suc (Suc (tick w))) = Inl e2" "isRetryable e2" by auto
  have "callLLM E prompt w =
       (Inl e2, w\<lparr>tick := tick w + 3,
                  trace := trace w @ [LLMCall prompt, Sleep 10000, LLMCall prompt,
                                       Sleep 20000, LLMCall prompt]\<rparr>)"
    unfolding callLLM_def
    apply (subst callLLM_loop.simps)
    apply (simp add: e0)
    apply (subst callLLM_loop.simps)
    apply (simp add: e1)
    apply (subst callLLM_loop.simps)
    apply (simp add: e2 emit_def step_def)
    done
  with e2 show ?thesis by (simp add: numeral_2_eq_2)
qed

lemma callLLM_non_transient:
  assumes "attempt_outcome E prompt (tick w) = Inl e" "\<not> isRetryable e"
  shows "callLLM E prompt w =
           (Inl e, w\<lparr>tick := tick w + 1, trace := trace w @ [LLMCall prompt]\<rparr>)"
  unfolding callLLM_def
  apply (subst callLLM_loop.simps)
  apply (simp add: assms emit_def step_def)
  done

text \<open>
  Claim C6, as the code has it. When every attempt fails with a transient error
  (a message holding \<open>503\<close>, \<open>overloaded\<close> or \<open>UNAVAILABLE\<close>), \<open>callLLM\<close> calls the
  model exactly three times, sleeps 10 s after the first failure and 20 s after the
  second, and raises the third error without sleeping again. When the first attempt
  fails with an error that is not transient, the model is called exactly once and that
  error is raised at once.
\<close>

theorem C6_callLLM_retry_policy:
  "((\<forall>k<3. \<exists>e. attempt_outcome E prompt (tick w + k) = Inl e \<and> isRetryable e) \<longrightarrow>
      (\<exists>e. attempt_outcome E prompt (tick w + 2) = Inl e \<and>
           callLLM E prompt w =
             (Inl e, w\<lparr>tick := tick w + 3,
                       trace := trace w @ [LLMCall prompt, Sleep 10000, LLMCall prompt,
                                            Sleep 20000, LLMCall prompt]\<rparr>)))
   \<and> (\<forall>e. attempt_outcome E prompt (tick w) = Inl e \<and> \<not> isRetryable e \<longrightarrow>
          callLLM E prompt w =
            (Inl e, w\<lparr>tick := tick w + 1, trace := trace w @ [LLMCall prompt]\<rparr>))"
  using callLLM_all_transient [of E prompt w] callLLM_non_transient [of E prompt w]
  by blast

theorem C6_callLLM_retry_policy_witness:
  "callLLM overloadedEnv ''p'' w0 =
     (Inl (Error ''503 Service Unavailable''),
      \<lparr> tick = 3,
        trace = [LLMCall ''p'', Sleep 10000, LLMCall ''p'', Sleep 20000, LLMCall ''p''] \<rparr>)
   \<and> callLLM rejectingEnv ''p'' w0 =
     (Inl (Error ''401 invalid api key''), \<lparr> tick = 1, trace = [LLMCall ''p''] \<rparr>)"
proof -
  have a: "\<forall>k<3. \<exists>e. attempt_outcome overloadedEnv ''p'' (tick w0 + k) = Inl e \<and> isRetryable e"
    by (simp add: attempt_outcome_def overloadedEnv_def quietEnv_def isRetryable_def)
  have b: "attempt_outcome rejectingEnv ''p'' (tick w0) = Inl (Error ''401 invalid api key'')
           \<and> \<not> isRetryable (Error ''401 invalid api key'')"
    by (simp add: attempt_outcome_def rejectingEnv_def quietEnv_def isRetryable_def)
  from a C6_callLLM_retry_policy [of overloadedEnv "''p''" w0]
  have "\<exists>e. attempt_outcome overloadedEnv ''p'' (tick w0 + 2) = Inl e \<and>
           callLLM overloadedEnv ''p'' w0 =
             (Inl e, w0\<lparr>tick := tick w0 + 3,
                       trace := trace w0 @ [LLMCall ''p'', Sleep 10000, LLMCall ''p'',
                                             Sleep 20000, LLMCall ''p'']\<rparr>)"
    by blast
  then have c: "callLLM overloadedEnv ''p'' w0 =
     (Inl (Error ''503 Service Unavailable''),
      \<lparr> tick = 3,
        trace = [LLMCall ''p'', Sleep 10000, LLMCall ''p'', Sleep 20000, LLMCall ''p''] \<rparr>)"
    by (auto simp add: attempt_outcome_def overloadedEnv_def quietEnv_def w0_def)
  from b C6_callLLM_retry_policy [of rejectingEnv "''p''" w0]
  have "callLLM rejectingEnv ''p'' w0 =
            (Inl (Error ''401 invalid api key''),
             w0\<lparr>tick := tick w0 + 1, trace := trace w0 @ [LLMCall ''p'']\<rparr>)"
    by blast
  then have d: "callLLM rejectingEnv ''p'' w0 =
     (Inl (Error ''401 invalid api key''), \<lparr> tick = 1, trace = [LLMCall ''p''] \<rparr>)"
    by (simp add: w0_def)
  from c d show ?thesis by simp
qed

text \<open>
  The claim as it was stated asks for delays of 10 s, 20 s and 30 s between three
  attempts. With a model that is overloaded at every call there are three calls and
  two delays, 10 s and 20 s: no 30 s delay follows the last attempt.
\<close>

theorem C6_delays_counterexample:
  "llm_calls (trace (snd (callLLM overloadedEnv ''p'' w0))) = 3
   \<and> sleeps (trace (snd (callLLM overloadedEnv ''p'' w0))) = [10000, 20000]
   \<and> sleeps (trace (snd (callLLM overloadedEnv ''p'' w0))) \<noteq> [10000, 20000, 30000]"
proof -
  have "callLLM overloadedEnv ''p'' w0 =
     (Inl (Error ''503 Service Unavailable''),
      \<lparr> tick = 3,
        trace = [LLMCall ''p'', Sleep 10000, LLMCall ''p'', Sleep 20000, LLMCall ''p''] \<rparr>)"
    unfolding callLLM_def
    apply (subst callLLM_loop.simps)
    apply (simp add: attempt_outcome_def overloadedEnv_def quietEnv_def isRetryable_def w0_def)
    apply (subst callLLM_loop.simps)
    apply (simp add: attempt_outcome_def overloadedEnv_def quietEnv_def isRetryable_def)
    apply (subst callLLM_loop.simps)
    apply (simp add: attempt_outcome_def overloadedEnv_def quietEnv_def isRetryable_def
                     emit_def step_def)
    done
  then show ?thesis by (simp add: sleeps_def llm_calls_def)
qed

section \<open>The calls of fetchForArbitrage\<close>








lemma cached_fetchHeadlines:
  "millis (now E (tick w)) - 1768478400000 < HEADLINE_CACHE_TTL \<Longrightarrow>
     fetchHeadlines E cachedNews w = ([artA, artB], cachedNews, step w)"
  by (simp add: fetchHeadlines_def headlinesFresh_def cachedHeadlines_def cachedNews_def ns0_def)


section \<open>The local matching of articles\<close>

lemma foldl_terms:
  "foldl (\<lambda>score term. if P term then score + 0.3 else score) (s::real) terms =
     s + 0.3 * real (length (filter P terms))"
  by (induction terms arbitrary: s) (auto simp add: algebra_simps)

lemma articleScore_eq:
  "articleScore X kw terms a =
     2 * calculateRelevanceScore X (title a @ '' '' @ description a) kw
     + 0.3 * real (length (filter
         (\<lambda>term. str_includes (toLowerCase (title a @ '' '' @ description a)) term) terms))"
  by (simp add: articleScore_def Let_def foldl_terms)

lemma insertBy_insort:
  "insertBy (\<lambda>a b. scoreOr0 b - scoreOr0 a) x ys = insort_key (\<lambda>a. - scoreOr0 a) x ys"
  by (induction ys) auto

lemma sortBy_sort_key:
  "sortBy (\<lambda>a b. scoreOr0 b - scoreOr0 a) xs = sort_key (\<lambda>a. - scoreOr0 a) xs"
  by (induction xs) (auto simp add: sortBy_def insertBy_insort)

lemma sortBy_stable:
  "filter (\<lambda>a. scoreOr0 a = k) (sortBy (\<lambda>a b. scoreOr0 b - scoreOr0 a) xs) =
     filter (\<lambda>a. scoreOr0 a = k) xs"
proof -
  have "(- scoreOr0 a = - k) = (scoreOr0 a = k)" for a by simp
  with sort_key_stable [of "\<lambda>a. - scoreOr0 a" "- k" xs] show ?thesis
    by (simp add: sortBy_sort_key)
qed

lemma set_sortBy: "set (sortBy cmp xs) = set xs"
proof -
  have "set (insertBy cmp x ys) = insert x (set ys)" for x ys
    by (induction ys) auto
  then show ?thesis by (induction xs) (auto simp add: sortBy_def)
qed

lemma match_scores:
  assumes "a \<in> set (matchArticlesLocally X articles kw t)"
  shows "0.3 \<le> scoreOr0 a \<and> scoreOr0 a \<le> 1"
proof -
  from assms have "a \<in> set (filter relevant (map (scoreArticle X kw (keyTerms t)) articles))"
    by (auto simp add: matchArticlesLocally_def set_sortBy dest: in_set_takeD)
  then show ?thesis
    by (auto simp add: relevant_def scoreArticle_def scoreOr0_def)
qed

lemma match_sorted:
  "sorted_wrt (\<lambda>a b. scoreOr0 b \<le> scoreOr0 a) (matchArticlesLocally X articles kw t)"
proof -
  have "sorted (map (\<lambda>a. - scoreOr0 a) (sort_key (\<lambda>a. - scoreOr0 a) xs))"
    for xs :: "article list"
    by (rule sorted_sort_key)
  then have "sorted_wrt (\<lambda>a b. scoreOr0 b \<le> scoreOr0 a) (sort_key (\<lambda>a. - scoreOr0 a) xs)"
    for xs :: "article list"
    by (simp add: sorted_map)
  then show ?thesis
    by (simp add: matchArticlesLocally_def sortBy_sort_key sorted_wrt_take)
qed

lemma match_length:
  "length (matchArticlesLocally X articles kw t) \<le> 10"
  by (simp add: matchArticlesLocally_def)

lemma keyTerms_fed:
  "keyTerms ''Fed cuts rates'' = [''cuts'', ''rtes'']"
proof -
  have lc: "toLowerCase ''Fed cuts rates'' = ''fed cuts rates''"
    by (simp add: toLowerCase_def lower_char_def)
  have rs: "replaceStop 0 ''fed cuts rates'' = ''fed cuts rtes''"
    by (simp add: stopMatch_def inYear_def)
  have sw: "splitWs [] False ''fed cuts rtes'' = [''fed'', ''cuts'', ''rtes'']"
    by (simp add: isSpace_def)
  show ?thesis
    by (simp only: keyTerms_def lc rs sw) simp
qed

lemma keyTerms_march:
  "keyTerms ''Fed decrease rates 50+ bps March 2026?'' = [''decrese'', ''rtes'', ''mrch'', ''2026'']"
proof -
  have lc: "toLowerCase ''Fed decrease rates 50+ bps March 2026?'' =
              ''fed decrease rates 50+ bps march 2026?''"
    by (simp add: toLowerCase_def lower_char_def)
  have rs: "replaceStop 0 ''fed decrease rates 50+ bps march 2026?'' =
              ''fed decrese rtes 50+ bps mrch 2026''"
    by (simp add: stopMatch_def inYear_def)
  have sw: "splitWs [] False ''fed decrese rtes 50+ bps mrch 2026'' =
              [''fed'', ''decrese'', ''rtes'', ''50+'', ''bps'', ''mrch'', ''2026'']"
    by (simp add: isSpace_def)
  show ?thesis
    by (simp only: keyTerms_def lc rs sw) simp
qed

text \<open>
  Claim C8 at inputs where the code departs from it. The pipeline of
  \<open>matchArticlesLocally\<close> is the one of the claim: a score of twice the
  keyword-overlap score plus 0.3 for each key term found in the text, bounded by 1,
  the articles below 0.3 dropped, a stable sort by descending score, the first ten
  kept. The key terms are not the tokens of the title without its stop words: the
  regular expression deletes \<open>a\<close>, \<open>an\<close>, \<open>no\<close>, \<open>by\<close> and the other stop words inside
  words as well. For the title \<open>Fed cuts rates\<close> the key terms are \<open>cuts\<close> and \<open>rtes\<close>. An
  article whose text holds both \<open>cuts\<close> and \<open>rates\<close>, with the keyword-overlap score
  0.1, is scored 0.5, for one term, where two terms of the title occur in it. For the
  title \<open>Fed decrease rates 50+ bps March 2026?\<close> the key terms are \<open>decrese\<close>, \<open>rtes\<close>,
  \<open>mrch\<close> and \<open>2026\<close>; an article on the Fed decreasing rates in March holds none of
  them, is scored 0.2 and is missing from the result. The sums at these inputs are the
  same in doubles.
\<close>

theorem C8_key_terms_lose_letters:
  "keyTerms ''Fed cuts rates'' = [''cuts'', ''rtes'']
   \<and> str_includes (toLowerCase (title artFed @ '' '' @ description artFed)) ''cuts''
   \<and> str_includes (toLowerCase (title artFed @ '' '' @ description artFed)) ''rates''
   \<and> \<not> str_includes (toLowerCase (title artFed @ '' '' @ description artFed)) ''rtes''
   \<and> matchArticlesLocally flatExtractor [artFed] () ''Fed cuts rates'' =
       [artFed\<lparr>relevanceScore := Some 0.5\<rparr>]
   \<and> keyTerms ''Fed decrease rates 50+ bps March 2026?'' =
       [''decrese'', ''rtes'', ''mrch'', ''2026'']
   \<and> str_includes (toLowerCase (title artMarch @ '' '' @ description artMarch)) ''decrease''
   \<and> str_includes (toLowerCase (title artMarch @ '' '' @ description artMarch)) ''rates''
   \<and> str_includes (toLowerCase (title artMarch @ '' '' @ description artMarch)) ''march''
   \<and> matchArticlesLocally flatExtractor [artMarch] ()
         ''Fed decrease rates 50+ bps March 2026?'' = []"
proof -
  have tf: "toLowerCase (title artFed @ '' '' @ description artFed) =
              ''fed cuts rates 50bps the federal reserve confirmed the cut''"
    by (simp add: artFed_def toLowerCase_def lower_char_def)
  have tm: "toLowerCase (title artMarch @ '' '' @ description artMarch) =
              ''fed to decrease rates in march officials confirmed the plan''"
    by (simp add: artMarch_def toLowerCase_def lower_char_def)
  have f1: "str_includes ''fed cuts rates 50bps the federal reserve confirmed the cut'' ''cuts''"
    by simp
  have f2: "str_includes ''fed cuts rates 50bps the federal reserve confirmed the cut'' ''rates''"
    by simp
  have f3: "\<not> str_includes ''fed cuts rates 50bps the federal reserve confirmed the cut'' ''rtes''"
    by simp
  have m1: "str_includes ''fed to decrease rates in march officials confirmed the plan'' ''decrease''"
    by simp
  have m2: "str_includes ''fed to decrease rates in march officials confirmed the plan'' ''rates''"
    by simp
  have m3: "str_includes ''fed to decrease rates in march officials confirmed the plan'' ''march''"
    by simp
  have n1: "\<not> str_includes ''fed to decrease rates in march officials confirmed the plan'' ''decrese''"
    by simp
  have n2: "\<not> str_includes ''fed to decrease rates in march officials confirmed the plan'' ''rtes''"
    by simp
  have n3: "\<not> str_includes ''fed to decrease rates in march officials confirmed the plan'' ''mrch''"
    by simp
  have n4: "\<not> str_includes ''fed to decrease rates in march officials confirmed the plan'' ''2026''"
    by simp
  have k: "calculateRelevanceScore flatExtractor x () = 0.1" for x
    by (simp add: flatExtractor_def)
  have s1: "articleScore flatExtractor () [''cuts'', ''rtes''] artFed = 0.5"
    by (simp only: articleScore_eq tf k) (simp add: f1 f3)
  have s2: "articleScore flatExtractor () [''decrese'', ''rtes'', ''mrch'', ''2026''] artMarch = 0.2"
    by (simp only: articleScore_eq tm k) (simp add: n1 n2 n3 n4)
  have r1: "matchArticlesLocally flatExtractor [artFed] () ''Fed cuts rates'' =
              [artFed\<lparr>relevanceScore := Some 0.5\<rparr>]"
    by (simp add: matchArticlesLocally_def keyTerms_fed scoreArticle_def s1 relevant_def
        sortBy_def)
  have r2: "matchArticlesLocally flatExtractor [artMarch] ()
              ''Fed decrease rates 50+ bps March 2026?'' = []"
    by (simp add: matchArticlesLocally_def keyTerms_march scoreArticle_def s2 relevant_def
        sortBy_def)
  show ?thesis
    unfolding tf tm
    using keyTerms_fed keyTerms_march f1 f2 f3 m1 m2 m3 r1 r2 by blast
qed

section \<open>The deduplication of fetchForArbitrage\<close>

lemma dedupByTitle_indices:
  "dedupByTitle seen combined bs =
     combined @ map (\<lambda>i. bs ! i)
       (filter (\<lambda>i. title (bs ! i) \<notin> seen \<union> set (map title (take i bs))) [0..<length bs])"
proof (induction bs arbitrary: seen combined)
  case Nil
  then show ?case by simp
next
  case (Cons b bs)
  have u: "[0..<length (b # bs)] = 0 # map Suc [0..<length bs]"
    by (subst upt_rec) (simp add: map_Suc_upt)
  show ?case
  proof (cases "title b \<in> seen")
    case True
    then have e: "(x \<notin> seen \<and> x \<noteq> title b \<and> Q) = (x \<notin> seen \<and> Q)" for x Q
      by auto
    show ?thesis
      using True by (simp only: u) (simp add: Cons.IH filter_map comp_def e)
  next
    case False
    have e: "(x \<noteq> title b \<and> x \<notin> seen \<and> Q) = (x \<notin> seen \<and> x \<noteq> title b \<and> Q)" for x Q
      by auto
    show ?thesis
      using False by (simp only: u) (simp add: Cons.IH filter_map comp_def e)
  qed
qed

lemma dedupByTitle_specDedup:
  "dedupByTitle (title ` set hs) hs bs = specDedup hs bs"
  by (simp add: dedupByTitle_indices specDedup_def)

text \<open>
  Claim C9. When the breaking search of \<open>fetchForArbitrage\<close> is sent and answered,
  the result is the headlines in their order, followed by exactly those articles of
  the breaking search whose title does not occur earlier, in the headlines or in the
  breaking-search list: the first occurrence of a title wins. The breaking-search
  list is the answer of the API without the entries that lack a title or a
  description.
\<close>

theorem C9_fetchForArbitrage_dedup:
  assumes "fetchHeadlines E ns w = (headlines, ns1, w1)"
      and "canMakeRequest E ns1 w1 = (True, ns2, w2)"
      and "truthy (activeApiKeys ns2 ''NewsAPI'')"
      and "httpGet E (Suc (tick w2)) (breakingRequest (millis (now E (tick w2)))) = HttpOk raw"
  shows "fst (fetchForArbitrage E ns w) =
           specDedup headlines (breakingArticles (trackRequest ns2) raw)"
  using assms
  by (simp add: fetchForArbitrage_def Let_def clock_def trackRequest_def
                dedupByTitle_specDedup)

theorem C9_fetchForArbitrage_dedup_witness:
  "fst (fetchForArbitrage bcEnv cachedNews w0) = [artA, artB, artC]"
proof -
  have n: "now bcEnv t = jan15" for t
    by (simp add: bcEnv_def quietEnv_def)
  have h: "fetchHeadlines bcEnv cachedNews w0 = ([artA, artB], cachedNews, step w0)"
    by (rule cached_fetchHeadlines) (simp add: n jan15_def HEADLINE_CACHE_TTL_def)
  have c: "canMakeRequest bcEnv cachedNews (step w0) = (True, cachedNews, step (step w0))"
    by (simp add: canMakeRequest_def checkDailyReset_def n cachedNews_def ns0_def
        MAX_DAILY_REQUESTS_def Let_def)
  have k: "truthy (activeApiKeys cachedNews ''NewsAPI'')"
    by (simp add: cachedNews_def ns0_def)
  have r: "httpGet bcEnv (Suc (tick (step (step w0))))
             (breakingRequest (millis (now bcEnv (tick (step (step w0)))))) = HttpOk [rawB, rawC]"
    by (simp add: bcEnv_def)
  have b: "breakingArticles (trackRequest cachedNews) [rawB, rawC] = [artB\<lparr>description := ''second, again'', url := ''b2'', source := ''Desk'', categories := None\<rparr>, artC]"
    by (simp add: breakingArticles_def toArticle_def rawValid_def rawB_def rawC_def artB_def
        artC_def analyzeSentiment_def trackRequest_def cachedNews_def ns0_def Let_def)
  have "fst (fetchForArbitrage bcEnv cachedNews w0) =
          specDedup [artA, artB] (breakingArticles (trackRequest cachedNews) [rawB, rawC])"
    by (rule C9_fetchForArbitrage_dedup [OF h c k r])
  then show ?thesis
    by (simp add: b specDedup_def artA_def artB_def artC_def upt_rec)
qed

section \<open>The confidence of a signal\<close>

lemma foldl_sum_nonneg:
  "(\<forall>a\<in>set as. 0 \<le> scoreOr0 a) \<Longrightarrow> (0::real) \<le> s \<Longrightarrow>
     0 \<le> foldl (\<lambda>sum a. sum + scoreOr0 a) s as"
  by (induction as arbitrary: s) auto

lemma tally_total_pos:
  "(\<forall>a\<in>set as. 0 \<le> scoreOr0 a) \<Longrightarrow>
     tw \<le> snd (snd (foldl tally (p, n, tw) as))
     \<and> (as \<noteq> [] \<longrightarrow> tw < snd (snd (foldl tally (p, n, tw) as)))"
proof (induction as arbitrary: p n tw)
  case Nil
  then show ?case by simp
next
  case (Cons a as)
  have w: "0 < weightOf a" using Cons.prems
    by (auto simp add: weightOf_def scoreOr0_def split: option.splits)
  have "\<exists>p' n'. tally (p, n, tw) a = (p', n', tw + weightOf a)"
    by (simp add: tally_def Let_def)
  then obtain p' n' where t: "tally (p, n, tw) a = (p', n', tw + weightOf a)"
    by blast
  from Cons.IH [where p = p' and n = n' and tw = "tw + weightOf a"] Cons.prems
  have "tw + weightOf a \<le> snd (snd (foldl tally (p', n', tw + weightOf a) as))" by simp
  with w t show ?case by simp
qed

lemma buildSignal_bounds:
  assumes "\<forall>a\<in>set articles. 0 \<le> scoreOr0 a"
  shows "confidenceInRange (buildSignal t articles)"
proof (cases "articles = []")
  case True
  then show ?thesis by (simp add: buildSignal_def neutralSignal_def confidenceInRange_def)
next
  case False
  obtain p n tw where f: "foldl tally (0, 0, 0) articles = (p, n, tw)"
    by (cases "foldl tally (0, 0, 0) articles") auto
  define avg where "avg = foldl (\<lambda>sum a. sum + scoreOr0 a) 0 articles / real (length articles)"
  define bonus :: real where "bonus = min 0.2 (real (length articles) * 0.02)"
  define pr where "pr = p / tw"
  define nr where "nr = n / tw"
  define c :: real where "c = (if pr > 0.6 then pr else if nr > 0.6 then nr else 0.5)"
  have avg: "0 \<le> avg" using foldl_sum_nonneg [OF assms, of 0] by (simp add: avg_def)
  have bonus: "0 \<le> bonus" by (simp add: bonus_def)
  have c: "0 \<le> c" by (simp add: c_def)
  have conf: "sig_confidence (buildSignal t articles) = min 0.95 (c * avg + bonus)"
    using False f by (simp add: buildSignal_def Let_def c_def avg_def bonus_def pr_def nr_def)
  have "0 \<le> c * avg + bonus" using avg bonus c by simp
  moreover have "min 0.95 (c * avg + bonus) \<le> 0.95" by (rule min.cobounded1)
  ultimately show ?thesis unfolding confidenceInRange_def conf by (simp add: min_def)
qed

lemma match_nonneg:
  "\<forall>a\<in>set (matchArticlesLocally X articles kw t). 0 \<le> scoreOr0 a"
  using match_scores by force

lemma matched_signal_ok [simp]:
  "confidenceInRange (buildSignal t (matchArticlesLocally X articles kw t'))"
  by (rule buildSignal_bounds [OF match_nonneg])

lemma neutral_signal_ok [simp]:
  "confidenceInRange (neutralSignal t)"
  by (simp add: neutralSignal_def confidenceInRange_def)

lemma searchStep_bounds [simp]:
  "confidenceInRange (fst (searchStep X E ns w t kw q k))"
  by (simp add: searchStep_def Let_def split: prod.splits)

lemma getMarketSignals_bounds:
  "confidenceInRange (fst (getMarketSignals X E ns w t r))"
  by (simp add: getMarketSignals_def Let_def split: prod.splits option.splits)

text \<open>
  Claim C10. The confidence of a signal built by \<open>buildSignal\<close> is at most 0.95, by
  the final \<open>Math.min\<close>, and it is at least 0 when no article has a negative relevance
  score: the confidence before weighting is a ratio above 0.6 or the constant 0.5,
  the average relevance is not negative and the bonus is not negative.
  \<open>getMarketSignals\<close> builds signals only from the results of \<open>matchArticlesLocally\<close>,
  whose scores are at least 0.3, or returns the neutral signal of confidence 0, so
  every signal it returns has a confidence from 0 to 0.95. Numbers are reals here;
  with relevance scores that are not negative the total weight of a non-empty list is
  positive, so the two ratios are divisions by a positive number.
\<close>

theorem C10_signal_confidence_bounds:
  "((\<forall>a\<in>set articles. 0 \<le> scoreOr0 a) \<longrightarrow>
       0 \<le> sig_confidence (buildSignal t articles)
       \<and> sig_confidence (buildSignal t articles) \<le> 0.95)
   \<and> 0 \<le> sig_confidence (fst (getMarketSignals X E ns w marketTitle marketRules))
   \<and> sig_confidence (fst (getMarketSignals X E ns w marketTitle marketRules)) \<le> 0.95"
  using buildSignal_bounds [of articles t]
        getMarketSignals_bounds [of X E ns w marketTitle marketRules]
  by (simp add: confidenceInRange_def)

theorem C10_signal_confidence_bounds_witness:
  "sig_confidence (buildSignal ''Fed cuts rates'' [artGood]) = 0.95
   \<and> sig_signal (buildSignal ''Fed cuts rates'' [artGood]) = Bullish
   \<and> 0 \<le> sig_confidence (buildSignal ''Fed cuts rates'' [artGood])
   \<and> sig_confidence (buildSignal ''Fed cuts rates'' [artGood]) \<le> 0.95"
proof -
  have a: "\<forall>a\<in>set [artGood]. 0 \<le> scoreOr0 a"
    by (simp add: artGood_def artFed_def scoreOr0_def)
  have b: "sig_confidence (buildSignal ''Fed cuts rates'' [artGood]) = 0.95
           \<and> sig_signal (buildSignal ''Fed cuts rates'' [artGood]) = Bullish"
    by (simp add: buildSignal_def tally_def weightOf_def scoreOr0_def artGood_def artFed_def
        Let_def)
  from a b C10_signal_confidence_bounds [of "[artGood]" "''Fed cuts rates''"]
  show ?thesis by blast
qed

end
